theory Spec2Isabelle
  imports Complex_Main "HOL-Library.AList" "HOL-Library.Char_ord" "HOL-Library.List_Lexorder"
begin

section \<open>The similarity engine of the lookalike notebook\<close>

text \<open>
  The lookalike notebook's \<^verbatim>\<open>calculate_similarity(features, target_customers)\<close> takes a
  data frame with a \<^verbatim>\<open>CustomerID\<close> column and numeric feature columns. A data frame is
  modelled as the list of its rows, each row being the customer identifier and the
  values of the numeric columns in the order of
  \<^verbatim>\<open>features.columns.difference(['CustomerID'])\<close>. Floating-point numbers are modelled
  as exact reals, so rounding errors of the arithmetic are outside the model.
\<close>

type_synonym feature_table = "(string \<times> real list) list"

subsection \<open>The library calls: StandardScaler, cosine similarity, argsort\<close>

definition mean :: "real list \<Rightarrow> real" where
  "mean xs = sum_list xs / real (length xs)"

definition column :: "real list list \<Rightarrow> nat \<Rightarrow> real list" where
  "column X j = map (\<lambda>r. r ! j) X"

text \<open>A scale or a norm that is zero is replaced by one before dividing.\<close>

definition handle_zeros_in_scale :: "real \<Rightarrow> real" where
  "handle_zeros_in_scale s = (if s = 0 then 1 else s)"

definition scale_of :: "real list \<Rightarrow> real" where
  "scale_of xs = handle_zeros_in_scale (sqrt (mean (map (\<lambda>x. (x - mean xs)\<^sup>2) xs)))"

definition n_features :: "real list list \<Rightarrow> nat" where
  "n_features X = (case X of [] \<Rightarrow> 0 | r # _ \<Rightarrow> length r)"

text \<open>
  \<^verbatim>\<open>StandardScaler().fit_transform(X)\<close>: every column is centred on its mean and divided
  by its population standard deviation.
\<close>

definition fit_transform :: "real list list \<Rightarrow> real list list" where
  "fit_transform X =
     map (\<lambda>r. map (\<lambda>j. (r ! j - mean (column X j)) / scale_of (column X j))
                [0..<n_features X]) X"

definition normalize_row :: "real list \<Rightarrow> real list" where
  "normalize_row r =
     map (\<lambda>x. x / handle_zeros_in_scale (sqrt (sum_list (map (\<lambda>y. y\<^sup>2) r)))) r"

definition dot :: "real list \<Rightarrow> real list \<Rightarrow> real" where
  "dot a b = sum_list (map2 (*) a b)"

text \<open>
  \<^verbatim>\<open>cosine_similarity(X)\<close>: the rows are scaled to unit length and the matrix of their
  pairwise dot products is returned.
\<close>

definition cosine_similarity :: "real list list \<Rightarrow> real list list" where
  "cosine_similarity X = (let Xn = map normalize_row X in map (\<lambda>a. map (dot a) Xn) Xn)"

text \<open>
  \<^verbatim>\<open>np.argsort(scores)\<close> returns the indices of \<open>scores\<close> in ascending order of
  score; the sort it uses by default promises no order among equal scores.
  \<open>is_argsort scores order\<close> says that \<open>order\<close> is such a result: every index once,
  the scores ascending along it.
\<close>

definition is_argsort :: "real list \<Rightarrow> nat list \<Rightarrow> bool" where
  "is_argsort scores order =
     (length order = length scores \<and> distinct order \<and>
      list_all (\<lambda>i. i < length scores) order \<and>
      sorted (map (\<lambda>i. scores ! i) order))"

text \<open>
  One such result, the one that keeps equal scores in index order (a stable sort). It
  is used where a table is evaluated and the order among equal scores does not matter.
\<close>

definition argsort :: "real list \<Rightarrow> nat list" where
  "argsort scores = sort_key (\<lambda>i. scores ! i) [0..<length scores]"

subsection \<open>calculate\_similarity\<close>

text \<open>\<^verbatim>\<open>np.argsort(scores)[-4:][:-1][::-1]\<close>, with the stable order.\<close>

definition similar_indices :: "real list \<Rightarrow> nat list" where
  "similar_indices scores =
     rev (butlast (drop (length (argsort scores) - 4) (argsort scores)))"

text \<open>
  \<^verbatim>\<open>{cid: idx for idx, cid in enumerate(features['CustomerID'])}\<close>: a later row with the
  same identifier overwrites an earlier one.
\<close>

definition index_step :: "nat \<times> string \<Rightarrow> (string \<rightharpoonup> nat) \<Rightarrow> (string \<rightharpoonup> nat)" where
  "index_step p m = (case p of (idx, cid) \<Rightarrow> m(cid \<mapsto> idx))"

definition customer_indices :: "string list \<Rightarrow> (string \<rightharpoonup> nat)" where
  "customer_indices ids = fold index_step (enumerate 0 ids) Map.empty"

definition similarity_matrix :: "feature_table \<Rightarrow> real list list" where
  "similarity_matrix features = cosine_similarity (fit_transform (map snd features))"

text \<open>The list comprehension that builds one target's recommendation list.\<close>

definition recommendation_list :: "feature_table \<Rightarrow> nat \<Rightarrow> (string \<times> real) list" where
  "recommendation_list features target_idx =
     (let scores = similarity_matrix features ! target_idx
      in map (\<lambda>idx. (map fst features ! idx, scores ! idx)) (similar_indices scores))"

text \<open>
  One round of the loop over \<^verbatim>\<open>target_customers\<close>. The dictionary
  \<^verbatim>\<open>recommendations\<close> keeps insertion order, so it is an association list; assigning
  to a key that is present replaces its value in place.
\<close>

definition recommend_step ::
    "feature_table \<Rightarrow> string \<Rightarrow> (string \<times> (string \<times> real) list) list
       \<Rightarrow> (string \<times> (string \<times> real) list) list" where
  "recommend_step features target_id recommendations =
     (case customer_indices (map fst features) target_id of
        None \<Rightarrow> recommendations
      | Some target_idx \<Rightarrow>
          AList.update target_id (recommendation_list features target_idx) recommendations)"

text \<open>
  The whole function, with the stable order. The scaler raises \<^verbatim>\<open>ValueError\<close> on a
  table with no row or no feature column; the \<^verbatim>\<open>except\<close> branch prints the error and
  returns \<^verbatim>\<open>None\<close>.
\<close>

definition calculate_similarity ::
    "feature_table \<Rightarrow> string list \<Rightarrow> (string \<times> (string \<times> real) list) list option" where
  "calculate_similarity features target_customers =
     (if features = [] \<or> n_features (map snd features) = 0 then None
      else Some (fold (recommend_step features) target_customers []))"

text \<open>
  The same function with the result of \<^verbatim>\<open>np.argsort\<close> left open: \<open>order_of\<close> stands
  for whatever order the library returns for a row of scores. The slices
  \<^verbatim>\<open>[-4:][:-1][::-1]\<close>, the list comprehension, the loop and the function are as above;
  with \<open>argsort\<close> for \<open>order_of\<close> they are the functions above
  (\<open>calculate_similarity_stable\<close>).
\<close>

definition similar_indices_of :: "nat list \<Rightarrow> nat list" where
  "similar_indices_of order = rev (butlast (drop (length order - 4) order))"

definition recommendation_list_with ::
    "(real list \<Rightarrow> nat list) \<Rightarrow> feature_table \<Rightarrow> nat \<Rightarrow> (string \<times> real) list" where
  "recommendation_list_with order_of features target_idx =
     (let scores = similarity_matrix features ! target_idx
      in map (\<lambda>idx. (map fst features ! idx, scores ! idx))
           (similar_indices_of (order_of scores)))"

definition recommend_step_with ::
    "(real list \<Rightarrow> nat list) \<Rightarrow> feature_table \<Rightarrow> string
       \<Rightarrow> (string \<times> (string \<times> real) list) list \<Rightarrow> (string \<times> (string \<times> real) list) list" where
  "recommend_step_with order_of features target_id recommendations =
     (case customer_indices (map fst features) target_id of
        None \<Rightarrow> recommendations
      | Some target_idx \<Rightarrow>
          AList.update target_id (recommendation_list_with order_of features target_idx)
            recommendations)"

definition calculate_similarity_with ::
    "(real list \<Rightarrow> nat list) \<Rightarrow> feature_table \<Rightarrow> string list
       \<Rightarrow> (string \<times> (string \<times> real) list) list option" where
  "calculate_similarity_with order_of features target_customers =
     (if features = [] \<or> n_features (map snd features) = 0 then None
      else Some (fold (recommend_step_with order_of features) target_customers []))"

subsection \<open>Two small feature tables\<close>

text \<open>
  Four customers with four feature columns; seen from customer \<open>C0001\<close> the customers
  \<open>C0002\<close> and \<open>C0004\<close> are equally similar.
\<close>

definition tied_features :: feature_table where
  "tied_features =
     [(''C0001'', [3, 3, 3, 3]), (''C0002'', [1, 3, 1, 1]),
      (''C0003'', [3, 1, 1, 3]), (''C0004'', [1, 1, 3, 1])]"

text \<open>
  Four customers with two feature columns; \<open>C0001\<close> and \<open>C0002\<close> have the same
  feature values, as two customers with the same purchases have.
\<close>

definition twin_features :: feature_table where
  "twin_features =
     [(''C0001'', [100, 5]), (''C0002'', [100, 5]),
      (''C0003'', [300, 1]), (''C0004'', [300, 1])]"

subsection \<open>Facts about the index dictionary and the loop\<close>

lemma index_step_pair: "index_step (idx, cid) m = m(cid \<mapsto> idx)"
  by (simp add: index_step_def)

lemma customer_indices_fold_dom:
  "dom (fold index_step ps m0) = dom m0 \<union> snd ` set ps"
proof (induction ps arbitrary: m0)
  case Nil
  then show ?case by simp
next
  case (Cons p ps)
  obtain idx cid where p: "p = (idx, cid)" by (cases p)
  show ?case
    by (auto simp: p index_step_pair Cons.IH)
qed

lemma snd_enumerate: "snd ` set (enumerate 0 ids) = set ids"
  using set_map [of snd "enumerate 0 ids"] by (simp only: map_snd_enumerate)

lemma dom_customer_indices: "dom (customer_indices ids) = set ids"
  unfolding customer_indices_def customer_indices_fold_dom snd_enumerate by simp

lemma customer_indices_fold_range:
  "fold index_step ps m0 c = Some i \<Longrightarrow> m0 c = Some i \<or> (i, c) \<in> set ps"
proof (induction ps arbitrary: m0)
  case Nil
  then show ?case by simp
next
  case (Cons p ps)
  obtain idx cid where p: "p = (idx, cid)" by (cases p)
  from Cons.prems have "fold index_step ps (m0(cid \<mapsto> idx)) c = Some i"
    by (simp add: p index_step_pair)
  from Cons.IH [OF this] show ?case
    by (auto simp: p split: if_splits)
qed

lemma customer_indices_points_at:
  assumes "customer_indices ids c = Some i"
  shows "i < length ids \<and> ids ! i = c"
proof -
  from assms have "(i, c) \<in> set (enumerate 0 ids)"
    using customer_indices_fold_range [of "enumerate 0 ids" Map.empty c i]
    by (simp add: customer_indices_def)
  then show ?thesis
    by (auto simp: in_set_enumerate_eq)
qed

lemma customer_indices_None: "(customer_indices ids c = None) = (c \<notin> set ids)"
  by (metis domIff dom_customer_indices)

lemma recommend_step_absent:
  "t \<notin> set (map fst features) \<Longrightarrow> recommend_step features t acc = acc"
  using customer_indices_None [of "map fst features" t] by (simp add: recommend_step_def)

lemma recommend_step_present:
  assumes "customer_indices (map fst features) t = Some i"
  shows "recommend_step features t acc = AList.update t (recommendation_list features i) acc"
  using assms by (simp add: recommend_step_def)

lemma map_of_recommend_fold:
  "map_of (fold (recommend_step features) ts acc) t =
     (if t \<in> set ts \<and> t \<in> set (map fst features)
      then map_option (recommendation_list features) (customer_indices (map fst features) t)
      else map_of acc t)"
proof (induction ts arbitrary: acc)
  case Nil
  then show ?case by simp
next
  case (Cons a ts)
  show ?case
  proof (cases "customer_indices (map fst features) a")
    case None
    have absent: "a \<notin> set (map fst features)"
      using None customer_indices_None [of "map fst features" a] by simp
    have "fold (recommend_step features) (a # ts) acc = fold (recommend_step features) ts acc"
      by (simp add: recommend_step_absent [OF absent])
    with absent show ?thesis
      by (auto simp: Cons.IH)
  next
    case (Some i)
    have present: "a \<in> set (map fst features)"
      using Some customer_indices_None [of "map fst features" a] by auto
    have "fold (recommend_step features) (a # ts) acc =
          fold (recommend_step features) ts (AList.update a (recommendation_list features i) acc)"
      by (simp add: recommend_step_present [OF Some])
    with present Some show ?thesis
      by (simp add: Cons.IH update_conv')
  qed
qed

lemma keys_recommend_fold:
  "fst ` set (fold (recommend_step features) ts acc) =
     fst ` set acc \<union> {t \<in> set ts. t \<in> set (map fst features)}"
proof -
  have "dom (map_of (fold (recommend_step features) ts acc)) =
        dom (map_of acc) \<union> {t \<in> set ts. t \<in> set (map fst features)}"
  proof (rule set_eqI)
    fix t
    have "customer_indices (map fst features) t \<noteq> None" if "t \<in> set (map fst features)"
      using that dom_customer_indices [of "map fst features"] by blast
    then show "(t \<in> dom (map_of (fold (recommend_step features) ts acc))) =
               (t \<in> dom (map_of acc) \<union> {t \<in> set ts. t \<in> set (map fst features)})"
      by (auto simp: map_of_recommend_fold domIff)
  qed
  then show ?thesis by (simp add: dom_map_of_conv_image_fst)
qed

lemma distinct_keys_recommend_fold:
  "distinct (map fst acc) \<Longrightarrow> distinct (map fst (fold (recommend_step features) ts acc))"
proof (induction ts arbitrary: acc)
  case Nil
  then show ?case by simp
next
  case (Cons a ts)
  have "distinct (map fst (recommend_step features a acc))"
    using Cons.prems by (simp add: recommend_step_def distinct_update split: option.split)
  from Cons.IH [OF this] show ?case by simp
qed

lemma recommendations_lookup:
  assumes "calculate_similarity features target_customers = Some recommendations"
    and "customer_indices (map fst features) target_id = Some target_idx"
    and "target_id \<in> set target_customers"
  shows "map_of recommendations target_id = Some (recommendation_list features target_idx)"
proof -
  from assms(1) have r: "recommendations = fold (recommend_step features) target_customers []"
    by (simp add: calculate_similarity_def split: if_splits)
  have "target_id \<in> set (map fst features)"
    using assms(2) customer_indices_None [of "map fst features" target_id] by auto
  with assms(2,3) show ?thesis
    by (simp add: r map_of_recommend_fold)
qed

lemma recommend_step_with_absent:
  "t \<notin> set (map fst features) \<Longrightarrow> recommend_step_with order_of features t acc = acc"
  using customer_indices_None [of "map fst features" t] by (simp add: recommend_step_with_def)

lemma recommend_step_with_present:
  assumes "customer_indices (map fst features) t = Some i"
  shows "recommend_step_with order_of features t acc =
           AList.update t (recommendation_list_with order_of features i) acc"
  using assms by (simp add: recommend_step_with_def)

lemma map_of_recommend_fold_with:
  "map_of (fold (recommend_step_with order_of features) ts acc) t =
     (if t \<in> set ts \<and> t \<in> set (map fst features)
      then map_option (recommendation_list_with order_of features)
             (customer_indices (map fst features) t)
      else map_of acc t)"
proof (induction ts arbitrary: acc)
  case Nil
  then show ?case by simp
next
  case (Cons a ts)
  show ?case
  proof (cases "customer_indices (map fst features) a")
    case None
    have absent: "a \<notin> set (map fst features)"
      using None customer_indices_None [of "map fst features" a] by simp
    have "fold (recommend_step_with order_of features) (a # ts) acc =
          fold (recommend_step_with order_of features) ts acc"
      by (simp add: recommend_step_with_absent [OF absent])
    with absent show ?thesis
      by (auto simp: Cons.IH)
  next
    case (Some i)
    have present: "a \<in> set (map fst features)"
      using Some customer_indices_None [of "map fst features" a] by auto
    have "fold (recommend_step_with order_of features) (a # ts) acc =
          fold (recommend_step_with order_of features) ts
            (AList.update a (recommendation_list_with order_of features i) acc)"
      by (simp add: recommend_step_with_present [OF Some])
    with present Some show ?thesis
      by (simp add: Cons.IH update_conv')
  qed
qed

lemma recommendations_lookup_with:
  assumes "calculate_similarity_with order_of features target_customers = Some recommendations"
    and "customer_indices (map fst features) target_id = Some target_idx"
    and "target_id \<in> set target_customers"
  shows "map_of recommendations target_id =
           Some (recommendation_list_with order_of features target_idx)"
proof -
  from assms(1) have r:
    "recommendations = fold (recommend_step_with order_of features) target_customers []"
    by (simp add: calculate_similarity_with_def split: if_splits)
  have "target_id \<in> set (map fst features)"
    using assms(2) customer_indices_None [of "map fst features" target_id] by auto
  with assms(2,3) show ?thesis
    by (simp add: r map_of_recommend_fold_with)
qed

subsection \<open>Facts about argsort and the selected indices\<close>

lemma argsort_distinct: "distinct (argsort s)"
  by (simp add: argsort_def)

lemma argsort_set: "set (argsort s) = {..<length s}"
  by (auto simp add: argsort_def)

lemma sorted_wrt_butlast: "sorted_wrt P xs \<Longrightarrow> sorted_wrt P (butlast xs)"
  by (induction xs) (auto dest: in_set_butlastD)

lemma similar_indices_stable: "similar_indices scores = similar_indices_of (argsort scores)"
  by (simp add: similar_indices_def similar_indices_of_def)

lemma recommendation_list_stable:
  "recommendation_list features target_idx = recommendation_list_with argsort features target_idx"
  by (simp add: recommendation_list_def recommendation_list_with_def similar_indices_stable)

lemma recommend_step_stable: "recommend_step features = recommend_step_with argsort features"
  by (intro ext)
    (simp add: recommend_step_def recommend_step_with_def recommendation_list_stable
      split: option.split)

lemma calculate_similarity_stable:
  "calculate_similarity features target_customers =
     calculate_similarity_with argsort features target_customers"
  by (simp add: calculate_similarity_def calculate_similarity_with_def recommend_step_stable)

lemma argsort_is_argsort: "is_argsort scores (argsort scores)"
  by (auto simp: is_argsort_def argsort_def list_all_iff)

lemma is_argsort_set:
  assumes "is_argsort scores order"
  shows "set order = {..<length scores}"
proof (rule card_subset_eq)
  show "finite {..<length scores}" by simp
  show "set order \<subseteq> {..<length scores}"
    using assms by (auto simp: is_argsort_def list_all_iff)
  show "card (set order) = card {..<length scores}"
    using assms by (simp add: is_argsort_def distinct_card)
qed

lemma similar_indices_of_descending:
  assumes "is_argsort scores order"
  shows "sorted_wrt (\<lambda>i j. scores ! j \<le> scores ! i) (similar_indices_of order)"
proof -
  from assms have "sorted_wrt (\<lambda>i j. scores ! i \<le> scores ! j) order"
    by (simp add: is_argsort_def sorted_map)
  then have "sorted_wrt (\<lambda>i j. scores ! i \<le> scores ! j)
               (butlast (drop (length order - 4) order))"
    by (intro sorted_wrt_butlast sorted_wrt_drop)
  then show ?thesis
    by (simp add: similar_indices_of_def sorted_wrt_rev)
qed

lemma similar_indices_distinct: "distinct (similar_indices s)"
  by (simp add: similar_indices_def distinct_butlast argsort_distinct)

lemma similar_indices_range: "set (similar_indices s) \<subseteq> {..<length s}"
proof -
  have "set (similar_indices s) \<subseteq> set (argsort s)"
    unfolding similar_indices_def
    by (auto dest!: in_set_butlastD in_set_dropD)
  then show ?thesis by (simp add: argsort_set)
qed

lemma similarity_row_length:
  "target_idx < length features \<Longrightarrow>
     length (similarity_matrix features ! target_idx) = length features"
  by (simp add: similarity_matrix_def cosine_similarity_def fit_transform_def Let_def)

subsection \<open>The two tables, evaluated\<close>

lemma upt_4: "[0..<4] = [0, 1, 2, 3]"
  by (simp add: upt_rec)

lemma upt_2: "[0..<2] = [0, 1]"
  by (simp add: upt_rec)

lemma tied_matrix:
  "similarity_matrix tied_features =
     [[1, - (1 / 2), 0, - (1 / 2)], [- (1 / 2), 1, - (1 / 2), 0],
      [0, - (1 / 2), 1, - (1 / 2)], [- (1 / 2), 0, - (1 / 2), 1]]"
  by (simp add: similarity_matrix_def tied_features_def cosine_similarity_def normalize_row_def
      dot_def handle_zeros_in_scale_def fit_transform_def n_features_def column_def mean_def
      scale_of_def upt_4)

lemma twin_matrix:
  "similarity_matrix twin_features =
     [[1, 1, - 1, - 1], [1, 1, - 1, - 1], [- 1, - 1, 1, 1], [- 1, - 1, 1, 1]]"
  by (simp add: similarity_matrix_def twin_features_def cosine_similarity_def normalize_row_def
      dot_def handle_zeros_in_scale_def fit_transform_def n_features_def column_def mean_def
      scale_of_def upt_2)

lemma tied_index: "customer_indices (map fst tied_features) ''C0001'' = Some 0"
  by (simp add: customer_indices_def tied_features_def enumerate_eq_zip upt_4 index_step_pair)

lemma tied_index_absent: "customer_indices (map fst tied_features) ''C9999'' = None"
  by (simp add: customer_indices_def tied_features_def enumerate_eq_zip upt_4 index_step_pair)

lemma twin_index: "customer_indices (map fst twin_features) ''C0001'' = Some 0"
  by (simp add: customer_indices_def twin_features_def enumerate_eq_zip upt_4 index_step_pair)

lemma tied_similar: "similar_indices [1, - (1 / 2), 0, - (1 / 2)] = [2, 3, 1]"
  by (simp add: similar_indices_def argsort_def upt_4)

lemma tied_list:
  "recommendation_list tied_features 0 =
     [(''C0003'', 0), (''C0004'', - (1 / 2)), (''C0002'', - (1 / 2))]"
  by (simp add: recommendation_list_def tied_matrix tied_similar) (simp add: tied_features_def)

lemma tied_nonempty: "tied_features \<noteq> [] \<and> n_features (map snd tied_features) \<noteq> 0"
  by (simp add: tied_features_def n_features_def)

lemma twin_nonempty: "twin_features \<noteq> [] \<and> n_features (map snd twin_features) \<noteq> 0"
  by (simp add: twin_features_def n_features_def)

lemma tied_eval:
  "calculate_similarity tied_features [''C0001'', ''C9999''] =
     Some [(''C0001'', [(''C0003'', 0), (''C0004'', - (1 / 2)), (''C0002'', - (1 / 2))])]"
  by (simp add: calculate_similarity_def tied_nonempty recommend_step_def tied_index
      tied_index_absent tied_list)

lemma twin_index_2: "customer_indices (map fst twin_features) ''C0002'' = Some 1"
  by (simp add: customer_indices_def twin_features_def enumerate_eq_zip upt_4 index_step_pair)

lemma twin_lists:
  "recommendation_list_with order_of twin_features 0 =
     map (\<lambda>idx. (map fst twin_features ! idx, [1, 1, - 1, - 1] ! idx))
       (similar_indices_of (order_of [1, 1, - 1, - 1]))"
  "recommendation_list_with order_of twin_features 1 =
     map (\<lambda>idx. (map fst twin_features ! idx, [1, 1, - 1, - 1] ! idx))
       (similar_indices_of (order_of [1, 1, - 1, - 1]))"
  by (simp_all add: recommendation_list_with_def twin_matrix Let_def)

lemma twin_eval_with:
  "calculate_similarity_with order_of twin_features [''C0001'', ''C0002''] =
     Some [(''C0001'', recommendation_list_with order_of twin_features 0),
           (''C0002'', recommendation_list_with order_of twin_features 1)]"
  by (simp add: calculate_similarity_with_def twin_nonempty recommend_step_with_def twin_index
      twin_index_2)

lemma tied_index_with:
  "recommendation_list_with order_of tied_features 0 =
     map (\<lambda>idx. (map fst tied_features ! idx, [1, - (1 / 2), 0, - (1 / 2)] ! idx))
       (similar_indices_of (order_of [1, - (1 / 2), 0, - (1 / 2)]))"
  by (simp add: recommendation_list_with_def tied_matrix Let_def)

lemma tied_eval_with:
  "calculate_similarity_with order_of tied_features [''C0001'', ''C9999''] =
     Some [(''C0001'', recommendation_list_with order_of tied_features 0)]"
  by (simp add: calculate_similarity_with_def tied_nonempty recommend_step_with_def tied_index
      tied_index_absent)

lemma tied_orders:
  assumes "is_argsort [1, - (1 / 2), 0, - (1 / 2)] order"
  shows "order = [1, 3, 2, 0] \<or> order = [3, 1, 2, 0]"
proof -
  from assms have len: "length order = 4" by (simp add: is_argsort_def)
  then obtain a b c d where o: "order = [a, b, c, d]"
    by (auto simp: length_Suc_conv numeral_eq_Suc)
  have cases4: "i = 0 \<or> i = 1 \<or> i = 2 \<or> i = 3" if "i < 4" for i :: nat
    using that by arith
  from assms o have "a < 4" "b < 4" "c < 4" "d < 4"
    by (simp_all add: is_argsort_def)
  then have a: "a = 0 \<or> a = 1 \<or> a = 2 \<or> a = 3"
    and b: "b = 0 \<or> b = 1 \<or> b = 2 \<or> b = 3"
    and c: "c = 0 \<or> c = 1 \<or> c = 2 \<or> c = 3"
    and d: "d = 0 \<or> d = 1 \<or> d = 2 \<or> d = 3"
    using cases4 by blast+
  from assms o have ds: "distinct [a, b, c, d]"
    and so: "sorted (map (\<lambda>i. [1, - (1 / 2), 0, - (1 / 2) :: real] ! i) [a, b, c, d])"
    by (simp_all add: is_argsort_def)
  from d ds so a b c have "d = 0"
    by (elim disjE) simp_all
  with c ds so a b have "c = 2"
    by (elim disjE) simp_all
  with \<open>d = 0\<close> a b ds have "(a = 1 \<and> b = 3) \<or> (a = 3 \<and> b = 1)"
    by (elim disjE) simp_all
  with \<open>c = 2\<close> \<open>d = 0\<close> o show ?thesis by auto
qed

text \<open>
  In \<open>twin_features\<close> the rows of the similarity matrix for \<open>C0001\<close> and for
  \<open>C0002\<close> are both \<open>[1, 1, - 1, - 1]\<close>. Whatever order a sort gives the two equal
  scores, the index it puts last is 0 or 1 and the other one is among the selected
  neighbours: one of the two customers is returned as its own neighbour.
\<close>

lemma twin_under_any_order:
  assumes "distinct order" and "set order = {0, 1, 2, 3}"
    and "sorted (map (\<lambda>i. [1, 1, - 1, - 1 :: real] ! i) order)"
  shows "(last order = 1 \<and> 0 \<in> set (rev (butlast (drop (length order - 4) order)))) \<or>
         (last order = 0 \<and> 1 \<in> set (rev (butlast (drop (length order - 4) order))))"
proof -
  let ?f = "\<lambda>i. [1, 1, - 1, - 1 :: real] ! i"
  have "card (set order) = 4"
    by (simp add: assms(2))
  with assms(1) have len: "length order = 4"
    by (simp add: distinct_card)
  then have ne: "order \<noteq> []"
    by auto
  then have parts: "butlast order @ [last order] = order"
    by simp
  have "distinct (butlast order @ [last order])"
    using assms(1) by (simp only: parts)
  then have "last order \<notin> set (butlast order)"
    by simp
  moreover have "set (butlast order @ [last order]) = set order"
    by (simp only: parts)
  ultimately have rest: "set (butlast order) = set order - {last order}"
    by auto
  have top: "?f x \<le> ?f (last order)" if "x \<in> set (butlast order)" for x
  proof -
    have "map ?f (butlast order) @ [?f (last order)] = map ?f (butlast order @ [last order])"
      by simp
    then have "sorted (map ?f (butlast order) @ [?f (last order)])"
      using assms(3) by (simp only: parts)
    with that show ?thesis
      by (auto simp: sorted_append)
  qed
  have last_in: "last order \<in> {0, 1, 2, 3}"
    using ne assms(2) last_in_set by blast
  show ?thesis
  proof (cases "last order = 0")
    case True
    then have "1 \<in> set (butlast order)"
      using rest assms(2) by auto
    with True len show ?thesis by simp
  next
    case False
    then have zero: "0 \<in> set (butlast order)"
      using rest assms(2) by auto
    from top [OF zero] have "1 \<le> ?f (last order)"
      by simp
    with last_in False have "last order = 1"
      by auto
    with zero len show ?thesis by simp
  qed
qed

subsection \<open>Claims about calculate\_similarity\<close>

text \<open>
  Claim C2 says that the neighbour list never holds the queried customer's own
  identifier. The code drops the last index of the argsort, the one with the highest
  score, not the index of the queried customer. In \<open>twin_features\<close> the customers
  \<open>C0001\<close> and \<open>C0002\<close> have the same features, so each scores 1 against both.
  Whatever order the sort gives the equal scores, one of the two is dropped from both
  lists and the other is kept in both: queried for \<open>C0001\<close> and \<open>C0002\<close>, the
  function returns one of them in its own list.
\<close>

theorem a_twin_is_own_neighbour:
  assumes "is_argsort [1, 1, - 1, - 1] (order_of [1, 1, - 1, - 1])"
  shows "\<exists>list_1 list_2.
           calculate_similarity_with order_of twin_features [''C0001'', ''C0002''] =
             Some [(''C0001'', list_1), (''C0002'', list_2)] \<and>
           (''C0001'' \<in> fst ` set list_1 \<or> ''C0002'' \<in> fst ` set list_2)"
proof -
  let ?order = "order_of [1, 1, - 1, - 1]"
  let ?ids = "\<lambda>idx. (map fst twin_features ! idx, [1, 1, - 1, - 1 :: real] ! idx)"
  have d: "distinct ?order"
    using assms by (simp add: is_argsort_def)
  have "set ?order = {..<4}"
    using is_argsort_set [OF assms] by simp
  also have "\<dots> = {0, 1, 2, 3}"
    by auto
  finally have s: "set ?order = {0, 1, 2, 3}" .
  have so: "sorted (map (\<lambda>i. [1, 1, - 1, - 1 :: real] ! i) ?order)"
    using assms by (simp add: is_argsort_def)
  from twin_under_any_order [OF d s so]
  have "0 \<in> set (similar_indices_of ?order) \<or> 1 \<in> set (similar_indices_of ?order)"
    by (auto simp: similar_indices_of_def)
  then have "?ids 0 \<in> set (map ?ids (similar_indices_of ?order)) \<or>
             ?ids 1 \<in> set (map ?ids (similar_indices_of ?order))"
    by auto
  then have "''C0001'' \<in> fst ` set (map ?ids (similar_indices_of ?order)) \<or>
             ''C0002'' \<in> fst ` set (map ?ids (similar_indices_of ?order))"
    by (auto simp: twin_features_def image_iff)
  then have "''C0001'' \<in> fst ` set (recommendation_list_with order_of twin_features 0) \<or>
             ''C0002'' \<in> fst ` set (recommendation_list_with order_of twin_features 1)"
    by (simp only: twin_lists)
  with twin_eval_with [of order_of] show ?thesis
    by blast
qed

text \<open>
  With the order \<open>[3, 2, 1, 0]\<close> for the row \<open>[1, 1, - 1, - 1]\<close>, customer
  \<open>C0002\<close> is the first neighbour of \<open>C0002\<close>.
\<close>

theorem a_twin_is_own_neighbour_witness:
  "is_argsort [1, 1, - 1, - 1] [3, 2, 1, 0] \<and>
   calculate_similarity_with (\<lambda>scores. [3, 2, 1, 0]) twin_features [''C0001'', ''C0002''] =
     Some [(''C0001'', [(''C0002'', 1), (''C0003'', - 1), (''C0004'', - 1)]),
           (''C0002'', [(''C0002'', 1), (''C0003'', - 1), (''C0004'', - 1)])] \<and>
   ''C0002'' \<in> fst ` set [(''C0002'', 1 :: real), (''C0003'', - 1), (''C0004'', - 1)]"
proof -
  have v: "is_argsort [1, 1, - 1, - 1] ((\<lambda>scores. [3, 2, 1, 0]) [1, 1, - 1, - 1])"
    by (simp add: is_argsort_def)
  have e: "calculate_similarity_with (\<lambda>scores. [3, 2, 1, 0]) twin_features
             [''C0001'', ''C0002''] =
           Some [(''C0001'', [(''C0002'', 1), (''C0003'', - 1), (''C0004'', - 1)]),
                 (''C0002'', [(''C0002'', 1), (''C0003'', - 1), (''C0004'', - 1)])]"
    by (simp only: twin_eval_with twin_lists)
      (simp add: similar_indices_of_def twin_features_def)
  show ?thesis
    using a_twin_is_own_neighbour [of "\<lambda>scores. [3, 2, 1, 0]", OF v] v e
    by simp
qed

text \<open>
  Claim C8: on a table the scaler accepts, \<open>calculate_similarity\<close> returns a
  mapping for every list of targets, and its keys are exactly the targets that occur in
  the \<^verbatim>\<open>CustomerID\<close> column; a target that does not occur there gets no entry.
\<close>

theorem absent_targets_skipped:
  assumes "features \<noteq> []" and "n_features (map snd features) \<noteq> 0"
  shows "\<exists>recommendations.
           calculate_similarity features target_customers = Some recommendations \<and>
           fst ` set recommendations = {t \<in> set target_customers. t \<in> fst ` set features}"
  using assms by (simp add: calculate_similarity_def keys_recommend_fold)

theorem absent_targets_skipped_witness:
  "tied_features \<noteq> [] \<and> n_features (map snd tied_features) \<noteq> 0 \<and>
   (\<exists>recommendations.
      calculate_similarity tied_features [''C0001'', ''C9999''] = Some recommendations \<and>
      fst ` set recommendations =
        {t \<in> set [''C0001'', ''C9999'']. t \<in> fst ` set tied_features})"
  using absent_targets_skipped [of tied_features "[''C0001'', ''C9999'']"] tied_nonempty
  by blast

text \<open>
  Claim C10: for a queried identifier that is in the feature table, the neighbour list
  is read off the indices \<open>similar_indices\<close> selects from the target's row of the
  similarity matrix; these indices are pairwise distinct and are row indices of the
  feature table.
\<close>

theorem neighbours_from_distinct_rows:
  assumes "calculate_similarity features target_customers = Some recommendations"
    and "customer_indices (map fst features) target_id = Some target_idx"
    and "target_id \<in> set target_customers"
  shows "map_of recommendations target_id =
           Some (map (\<lambda>idx. (map fst features ! idx,
                            similarity_matrix features ! target_idx ! idx))
                   (similar_indices (similarity_matrix features ! target_idx))) \<and>
         distinct (similar_indices (similarity_matrix features ! target_idx)) \<and>
         set (similar_indices (similarity_matrix features ! target_idx))
           \<subseteq> {..<length features}"
proof -
  have "target_idx < length features"
    using customer_indices_points_at [OF assms(2)] by simp
  then have "length (similarity_matrix features ! target_idx) = length features"
    by (rule similarity_row_length)
  then have "set (similar_indices (similarity_matrix features ! target_idx))
               \<subseteq> {..<length features}"
    using similar_indices_range [of "similarity_matrix features ! target_idx"] by simp
  moreover have "map_of recommendations target_id =
      Some (map (\<lambda>idx. (map fst features ! idx, similarity_matrix features ! target_idx ! idx))
              (similar_indices (similarity_matrix features ! target_idx)))"
    using recommendations_lookup [OF assms] by (simp add: recommendation_list_def Let_def)
  ultimately show ?thesis
    using similar_indices_distinct by blast
qed

theorem neighbours_from_distinct_rows_witness:
  "calculate_similarity tied_features [''C0001'', ''C9999''] =
     Some [(''C0001'', [(''C0003'', 0), (''C0004'', - (1 / 2)), (''C0002'', - (1 / 2))])] \<and>
   customer_indices (map fst tied_features) ''C0001'' = Some 0 \<and>
   ''C0001'' \<in> set [''C0001'', ''C9999''] \<and>
   distinct (similar_indices (similarity_matrix tied_features ! 0)) \<and>
   set (similar_indices (similarity_matrix tied_features ! 0)) \<subseteq> {..<length tied_features}"
  using neighbours_from_distinct_rows [OF tied_eval tied_index] tied_eval tied_index
  by simp

text \<open>
  Claim C6 says that the neighbour list is in strictly descending order of score, ties
  broken by original row order. In \<open>tied_features\<close> the customers \<open>C0002\<close> (row 1)
  and \<open>C0004\<close> (row 3) both score \<open>- 1 / 2\<close> against \<open>C0001\<close>. The row has two
  ascending orders (\<open>tied_orders\<close>); with either the list holds two equal scores
  next to each other, and with the first the later row comes before the earlier one.
\<close>

theorem tied_scores_counterexample:
  "similarity_matrix tied_features ! 0 = [1, - (1 / 2), 0, - (1 / 2)] \<and>
   is_argsort [1, - (1 / 2), 0, - (1 / 2)] [1, 3, 2, 0] \<and>
   calculate_similarity_with (\<lambda>scores. [1, 3, 2, 0]) tied_features [''C0001'', ''C9999''] =
     Some [(''C0001'', [(''C0003'', 0), (''C0004'', - (1 / 2)), (''C0002'', - (1 / 2))])] \<and>
   is_argsort [1, - (1 / 2), 0, - (1 / 2)] [3, 1, 2, 0] \<and>
   calculate_similarity_with (\<lambda>scores. [3, 1, 2, 0]) tied_features [''C0001'', ''C9999''] =
     Some [(''C0001'', [(''C0003'', 0), (''C0002'', - (1 / 2)), (''C0004'', - (1 / 2))])] \<and>
   \<not> sorted_wrt (>) [0, - (1 / 2), - (1 / 2) :: real]"
  by (simp add: tied_matrix is_argsort_def tied_eval_with tied_index_with similar_indices_of_def)
    (simp add: tied_features_def)

text \<open>
  Claim C6 as amended: for a queried identifier that is in the feature table, the
  scores of the neighbour list never increase along the list. Equal scores can stand
  next to each other, and no order among neighbours with equal scores is fixed.
\<close>

theorem neighbours_never_increase:
  assumes "calculate_similarity_with order_of features target_customers = Some recommendations"
    and "customer_indices (map fst features) target_id = Some target_idx"
    and "target_id \<in> set target_customers"
    and "is_argsort (similarity_matrix features ! target_idx)
           (order_of (similarity_matrix features ! target_idx))"
  shows "map_of recommendations target_id =
           Some (recommendation_list_with order_of features target_idx) \<and>
         sorted_wrt (\<lambda>p q. snd q \<le> snd p)
           (recommendation_list_with order_of features target_idx)"
proof -
  have "sorted_wrt (\<lambda>p q. snd q \<le> snd p)
          (recommendation_list_with order_of features target_idx)"
    using similar_indices_of_descending [OF assms(4)]
    by (simp add: recommendation_list_with_def Let_def sorted_wrt_map)
  with recommendations_lookup_with [OF assms(1,2,3)] show ?thesis
    by simp
qed

theorem neighbours_never_increase_witness:
  "calculate_similarity_with (\<lambda>scores. [3, 1, 2, 0]) tied_features [''C0001'', ''C9999''] =
     Some [(''C0001'', [(''C0003'', 0), (''C0002'', - (1 / 2)), (''C0004'', - (1 / 2))])] \<and>
   customer_indices (map fst tied_features) ''C0001'' = Some 0 \<and>
   ''C0001'' \<in> set [''C0001'', ''C9999''] \<and>
   is_argsort (similarity_matrix tied_features ! 0) [3, 1, 2, 0] \<and>
   sorted_wrt (\<lambda>p q. snd q \<le> snd p)
     [(''C0003'', 0 :: real), (''C0002'', - (1 / 2)), (''C0004'', - (1 / 2))]"
proof -
  have e: "calculate_similarity_with (\<lambda>scores. [3, 1, 2, 0]) tied_features
             [''C0001'', ''C9999''] =
           Some [(''C0001'', [(''C0003'', 0), (''C0002'', - (1 / 2)), (''C0004'', - (1 / 2))])]"
    by (simp add: tied_eval_with tied_index_with similar_indices_of_def)
      (simp add: tied_features_def)
  have v: "is_argsort (similarity_matrix tied_features ! 0)
             ((\<lambda>scores. [3, 1, 2, 0]) (similarity_matrix tied_features ! 0))"
    by (simp add: tied_matrix is_argsort_def)
  have m: "''C0001'' \<in> set [''C0001'', ''C9999'']"
    by simp
  show ?thesis
    using neighbours_never_increase [OF e tied_index m v] e tied_index v
    by simp
qed

section \<open>The feature builder\<close>

text \<open>
  Both notebooks define \<^verbatim>\<open>create_customer_features(customers, transactions, products)\<close>.
  The three arguments are what \<^verbatim>\<open>load_data\<close> returned: data frames, or \<^verbatim>\<open>None\<close>
  three times when loading failed. A data frame is the list of its rows with the
  columns the function reads; a cell holds a value (no missing cells in the input).
  \<^verbatim>\<open>TransactionDate\<close> is the parsed time stamp in nanoseconds. Numbers are exact:
  reals for floating-point columns, unbounded integers for integer columns (a sum
  beyond 64 bits does not wrap).
\<close>

record customer =
  customer_CustomerID :: string
  Region :: string

record product =
  product_ProductID :: string
  Category :: string

record transaction =
  CustomerID :: string
  ProductID :: string
  Quantity :: int
  TotalValue :: real
  TransactionDate :: int

subsection \<open>The library calls: groupby, merge, crosstab, get\_dummies\<close>

text \<open>\<^verbatim>\<open>groupby('CustomerID')\<close>: one group per identifier, the identifiers sorted.\<close>

definition group_keys :: "transaction list \<Rightarrow> string list" where
  "group_keys transactions = sort (remdups (map CustomerID transactions))"

definition group_of :: "transaction list \<Rightarrow> string \<Rightarrow> transaction list" where
  "group_of transactions c = filter (\<lambda>t. CustomerID t = c) transactions"

record stats_row =
  stats_CustomerID :: string
  TotalValue_sum :: real
  TotalValue_mean :: real
  TotalValue_count :: nat
  Quantity_sum :: int
  Quantity_mean :: real

text \<open>
  \<^verbatim>\<open>.agg({'TotalValue': ['sum', 'mean', 'count'], 'Quantity': ['sum', 'mean']}).reset_index()\<close>
\<close>

definition groupby_agg :: "transaction list \<Rightarrow> stats_row list" where
  "groupby_agg transactions =
     map (\<lambda>c. \<lparr>stats_CustomerID = c,
               TotalValue_sum = sum_list (map TotalValue (group_of transactions c)),
               TotalValue_mean = sum_list (map TotalValue (group_of transactions c))
                                 / real (length (group_of transactions c)),
               TotalValue_count = length (group_of transactions c),
               Quantity_sum = sum_list (map Quantity (group_of transactions c)),
               Quantity_mean = real_of_int (sum_list (map Quantity (group_of transactions c)))
                               / real (length (group_of transactions c))\<rparr>)
       (group_keys transactions)"

definition purchase_stats_columns :: "string list" where
  "purchase_stats_columns =
     [''CustomerID'', ''TotalValue_sum'', ''TotalValue_mean'', ''TotalValue_count'',
      ''Quantity_sum'', ''Quantity_mean'']"

text \<open>
  \<^verbatim>\<open>transactions.merge(products[['ProductID', 'Category']], on='ProductID')\<close>, an inner
  join; only the two columns the cross-tabulation reads are kept.
\<close>

definition merge_products :: "transaction list \<Rightarrow> product list \<Rightarrow> (string \<times> string) list" where
  "merge_products transactions products =
     concat (map (\<lambda>t. map (\<lambda>p. (CustomerID t, Category p))
                         (filter (\<lambda>p. product_ProductID p = ProductID t) products))
               transactions)"

text \<open>
  A table with an index column: the names of the value columns, and one row of values
  per index entry. The cross-tabulation and the indicator table have this shape.
\<close>

record indexed_table =
  value_columns :: "string list"
  table_rows :: "(string \<times> real list) list"

text \<open>
  \<^verbatim>\<open>pd.crosstab(index, columns, normalize='index')\<close>: the count of every (index, column)
  pair, each row divided by its sum. Every index entry occurs in the data, so no row
  sum is zero.
\<close>

definition crosstab_normalized :: "(string \<times> string) list \<Rightarrow> indexed_table" where
  "crosstab_normalized pairs =
     \<lparr>value_columns = sort (remdups (map snd pairs)),
      table_rows =
        map (\<lambda>c. (c, map (\<lambda>k. real (length (filter (\<lambda>p. fst p = c \<and> snd p = k) pairs))
                             / real (length (filter (\<lambda>p. fst p = c) pairs)))
                      (sort (remdups (map snd pairs)))))
          (sort (remdups (map fst pairs)))\<rparr>"

text \<open>The maximum of a column of time stamps; \<^verbatim>\<open>NaT\<close> (here \<open>None\<close>) when it is empty.\<close>

definition maximum :: "int list \<Rightarrow> int option" where
  "maximum xs = (case xs of [] \<Rightarrow> None | x # ys \<Rightarrow> Some (fold max ys x))"

definition nanoseconds_per_day :: int where
  "nanoseconds_per_day = 86400000000000"

text \<open>\<^verbatim>\<open>(latest_date - x.max()).days\<close>: the whole days of the difference, rounded down.\<close>

definition days_between :: "int option \<Rightarrow> int option \<Rightarrow> int option" where
  "days_between latest_date own =
     (case (latest_date, own) of
        (Some l, Some m) \<Rightarrow> Some ((l - m) div nanoseconds_per_day)
      | _ \<Rightarrow> None)"

definition recency_table :: "transaction list \<Rightarrow> (string \<times> int option) list" where
  "recency_table transactions =
     map (\<lambda>c. (c, days_between (maximum (map TransactionDate transactions))
                     (maximum (map TransactionDate (group_of transactions c)))))
       (group_keys transactions)"

text \<open>
  \<^verbatim>\<open>pd.get_dummies(customers[['CustomerID', 'Region']], prefix='region', columns=['Region'])\<close>:
  one row per row of the customer table, one indicator column per region.
\<close>

definition get_dummies :: "customer list \<Rightarrow> indexed_table" where
  "get_dummies customers =
     \<lparr>value_columns = map (\<lambda>r. ''region_'' @ r) (sort (remdups (map Region customers))),
      table_rows =
        map (\<lambda>c. (customer_CustomerID c,
                  map (\<lambda>r. if Region c = r then 1 else 0)
                    (sort (remdups (map Region customers)))))
          customers\<rparr>"

text \<open>
  \<^verbatim>\<open>left.merge(right, on='CustomerID', how='left')\<close>: every left row, in order, with each
  right row of the same key; with no such right row the right columns are missing.
\<close>

definition merge_left :: "('l \<Rightarrow> string) \<Rightarrow> (string \<times> 'r) list \<Rightarrow> 'l list \<Rightarrow> ('l \<times> 'r option) list" where
  "merge_left key right left =
     concat (map (\<lambda>l. case filter (\<lambda>r. fst r = key l) right of
                         [] \<Rightarrow> [(l, None)]
                       | ms \<Rightarrow> map (\<lambda>r. (l, Some (snd r))) ms)
               left)"

subsection \<open>The feature table\<close>

record feature_row =
  feature_CustomerID :: string
  feature_stats :: stats_row
  category_shares :: "real list"
  recency :: int
  region_flags :: "real list"

record feature_frame =
  category_columns :: "string list"
  region_columns :: "string list"
  feature_rows :: "feature_row list"

text \<open>\<^verbatim>\<open>fillna(0)\<close> on one merged row: every missing cell becomes 0.\<close>

definition fillna ::
    "nat \<Rightarrow> nat \<Rightarrow> ((stats_row \<times> real list option) \<times> int option option) \<times> real list option
       \<Rightarrow> feature_row" where
  "fillna n_categories n_regions m =
     (case m of (((st, shares), rec), flags) \<Rightarrow>
        \<lparr>feature_CustomerID = stats_CustomerID st,
         feature_stats = st,
         category_shares = (case shares of None \<Rightarrow> replicate n_categories 0 | Some vs \<Rightarrow> vs),
         recency = (case rec of Some (Some d) \<Rightarrow> d | _ \<Rightarrow> 0),
         region_flags = (case flags of None \<Rightarrow> replicate n_regions 0 | Some fs \<Rightarrow> fs)\<rparr>)"

text \<open>
  The three merges and \<^verbatim>\<open>fillna(0)\<close>. \<^verbatim>\<open>category_pivoted.reset_index()\<close> raises
  \<^verbatim>\<open>ValueError\<close> when a category is itself called \<^verbatim>\<open>CustomerID\<close>, the name of the
  index it inserts.
\<close>

datatype exn = AttributeError | TypeError | ValueError | UnboundLocalError

definition merge_all ::
    "stats_row list \<Rightarrow> indexed_table \<Rightarrow> (string \<times> int option) list \<Rightarrow> indexed_table
       \<Rightarrow> exn + feature_frame" where
  "merge_all purchase_stats category_pivoted recency_rows region_dummies =
     (if ''CustomerID'' \<in> set (value_columns category_pivoted) then Inl ValueError
      else Inr
        \<lparr>category_columns = value_columns category_pivoted,
         region_columns = value_columns region_dummies,
         feature_rows =
           map (fillna (length (value_columns category_pivoted))
                  (length (value_columns region_dummies)))
             (merge_left (\<lambda>m. stats_CustomerID (fst (fst m))) (table_rows region_dummies)
               (merge_left (\<lambda>m. stats_CustomerID (fst m)) recency_rows
                 (merge_left stats_CustomerID (table_rows category_pivoted)
                    purchase_stats)))\<rparr>)"

subsection \<open>create\_customer\_features\<close>

text \<open>What the function prints, line by line.\<close>

datatype diagnostic =
    ErrorCreatingFeatures exn
  | DebuggingInfo
  | PurchaseStatsColumns "string list"
  | CategoryPivotColumns "string list"
  | RegionDummyColumns "string list"

text \<open>The function returns a value (\<^verbatim>\<open>None\<close> or the table) or lets an exception out.\<close>

datatype outcome = Returned "feature_frame option" | Propagated exn

text \<open>
  The \<^verbatim>\<open>except\<close> branch. It prints the error and then the columns of three local
  variables of the \<^verbatim>\<open>try\<close> block; a local that was not assigned before the exception
  makes the \<^verbatim>\<open>print\<close> raise \<^verbatim>\<open>UnboundLocalError\<close>, which leaves the function.
\<close>

definition except_branch ::
    "exn \<Rightarrow> stats_row list option \<Rightarrow> indexed_table option \<Rightarrow> indexed_table option
       \<Rightarrow> outcome \<times> diagnostic list" where
  "except_branch e purchase_stats category_pivoted region_dummies =
     (case purchase_stats of
        None \<Rightarrow> (Propagated UnboundLocalError, [ErrorCreatingFeatures e, DebuggingInfo])
      | Some _ \<Rightarrow>
     (case category_pivoted of
        None \<Rightarrow> (Propagated UnboundLocalError,
                  [ErrorCreatingFeatures e, DebuggingInfo,
                   PurchaseStatsColumns purchase_stats_columns])
      | Some cp \<Rightarrow>
     (case region_dummies of
        None \<Rightarrow> (Propagated UnboundLocalError,
                  [ErrorCreatingFeatures e, DebuggingInfo,
                   PurchaseStatsColumns purchase_stats_columns,
                   CategoryPivotColumns (value_columns cp)])
      | Some rd \<Rightarrow> (Returned None,
                  [ErrorCreatingFeatures e, DebuggingInfo,
                   PurchaseStatsColumns purchase_stats_columns,
                   CategoryPivotColumns (value_columns cp),
                   RegionDummyColumns (''CustomerID'' # value_columns rd)]))))"

text \<open>
  The function of the clustering notebook. The statements of the \<^verbatim>\<open>try\<close> block run in
  order; \<^verbatim>\<open>transactions.groupby\<close> raises \<^verbatim>\<open>AttributeError\<close> on \<^verbatim>\<open>None\<close>, and
  subscripting \<^verbatim>\<open>products\<close> or \<^verbatim>\<open>customers\<close> raises \<^verbatim>\<open>TypeError\<close> on \<^verbatim>\<open>None\<close>.
\<close>

definition create_customer_features ::
    "customer list option \<Rightarrow> transaction list option \<Rightarrow> product list option
       \<Rightarrow> outcome \<times> diagnostic list" where
  "create_customer_features customers transactions products =
     (case transactions of
        None \<Rightarrow> except_branch AttributeError None None None
      | Some ts \<Rightarrow>
     (let purchase_stats = groupby_agg ts in
     (case products of
        None \<Rightarrow> except_branch TypeError (Some purchase_stats) None None
      | Some ps \<Rightarrow>
     (let product_categories = merge_products ts ps;
          category_pivoted = crosstab_normalized product_categories;
          recency = recency_table ts in
     (case customers of
        None \<Rightarrow> except_branch TypeError (Some purchase_stats) (Some category_pivoted) None
      | Some cs \<Rightarrow>
     (let region_dummies = get_dummies cs in
     (case merge_all purchase_stats category_pivoted recency region_dummies of
        Inl e \<Rightarrow> except_branch e (Some purchase_stats) (Some category_pivoted)
                   (Some region_dummies)
      | Inr final_features \<Rightarrow> (Returned (Some final_features), []))))))))"

text \<open>The function of the lookalike notebook, from its own text.\<close>

definition create_customer_features_lookalike ::
    "customer list option \<Rightarrow> transaction list option \<Rightarrow> product list option
       \<Rightarrow> outcome \<times> diagnostic list" where
  "create_customer_features_lookalike customers transactions products =
     (case transactions of
        None \<Rightarrow> except_branch AttributeError None None None
      | Some ts \<Rightarrow>
     (let purchase_stats = groupby_agg ts in
     (case products of
        None \<Rightarrow> except_branch TypeError (Some purchase_stats) None None
      | Some ps \<Rightarrow>
     (let product_categories = merge_products ts ps;
          category_pivoted = crosstab_normalized product_categories;
          recency = recency_table ts in
     (case customers of
        None \<Rightarrow> except_branch TypeError (Some purchase_stats) (Some category_pivoted) None
      | Some cs \<Rightarrow>
     (let region_dummies = get_dummies cs in
     (case merge_all purchase_stats category_pivoted recency region_dummies of
        Inl e \<Rightarrow> except_branch e (Some purchase_stats) (Some category_pivoted)
                   (Some region_dummies)
      | Inr final_features \<Rightarrow> (Returned (Some final_features), []))))))))"

subsection \<open>A small data set\<close>

text \<open>
  Three customers, two products and five transactions. Customer \<open>C0003\<close> has no
  transaction; customer \<open>C0004\<close> is not in the customer table and bought a product
  that is not in the product table, an hour before the latest transaction.
\<close>

definition example_customers :: "customer list" where
  "example_customers =
     [\<lparr>customer_CustomerID = ''C0001'', Region = ''Asia''\<rparr>,
      \<lparr>customer_CustomerID = ''C0002'', Region = ''Europe''\<rparr>,
      \<lparr>customer_CustomerID = ''C0003'', Region = ''Asia''\<rparr>]"

definition example_products :: "product list" where
  "example_products =
     [\<lparr>product_ProductID = ''P001'', Category = ''Books''\<rparr>,
      \<lparr>product_ProductID = ''P002'', Category = ''Electronics''\<rparr>]"

definition example_transactions :: "transaction list" where
  "example_transactions =
     [\<lparr>CustomerID = ''C0002'', ProductID = ''P001'', Quantity = 4, TotalValue = 100,
       TransactionDate = 864000000000000\<rparr>,
      \<lparr>CustomerID = ''C0001'', ProductID = ''P001'', Quantity = 2, TotalValue = 50,
       TransactionDate = 0\<rparr>,
      \<lparr>CustomerID = ''C0004'', ProductID = ''P999'', Quantity = 1, TotalValue = 20,
       TransactionDate = 860400000000000\<rparr>,
      \<lparr>CustomerID = ''C0001'', ProductID = ''P002'', Quantity = 1, TotalValue = 150,
       TransactionDate = 262800000000000\<rparr>,
      \<lparr>CustomerID = ''C0001'', ProductID = ''P002'', Quantity = 1, TotalValue = 150,
       TransactionDate = 172800000000000\<rparr>]"

definition example_row :: "string \<Rightarrow> real \<Rightarrow> real \<Rightarrow> nat \<Rightarrow> int \<Rightarrow> real \<Rightarrow> real list \<Rightarrow> int \<Rightarrow> real list \<Rightarrow> feature_row" where
  "example_row c s m n q qm shares rec flags =
     \<lparr>feature_CustomerID = c,
      feature_stats = \<lparr>stats_CustomerID = c, TotalValue_sum = s, TotalValue_mean = m,
                        TotalValue_count = n, Quantity_sum = q, Quantity_mean = qm\<rparr>,
      category_shares = shares, recency = rec, region_flags = flags\<rparr>"

definition example_frame :: feature_frame where
  "example_frame =
     \<lparr>category_columns = [''Books'', ''Electronics''],
      region_columns = [''region_Asia'', ''region_Europe''],
      feature_rows =
        [example_row ''C0001'' 350 (350 / 3) 3 4 (4 / 3) [1 / 3, 2 / 3] 6 [1, 0],
         example_row ''C0002'' 100 100 1 4 4 [1, 0] 0 [0, 1],
         example_row ''C0004'' 20 20 1 1 1 [0, 0] 0 [0, 0]]\<rparr>"

text \<open>A customer table that lists one customer twice, and a single transaction.\<close>

definition repeated_customers :: "customer list" where
  "repeated_customers =
     [\<lparr>customer_CustomerID = ''C0001'', Region = ''Asia''\<rparr>,
      \<lparr>customer_CustomerID = ''C0001'', Region = ''Asia''\<rparr>]"

definition single_transaction :: "transaction list" where
  "single_transaction =
     [\<lparr>CustomerID = ''C0001'', ProductID = ''P001'', Quantity = 2, TotalValue = 50,
       TransactionDate = 0\<rparr>]"

subsection \<open>Facts about the library calls\<close>

lemma merge_left_member:
  assumes "(l, ro) \<in> set (merge_left key right left)"
  shows "l \<in> set left \<and>
         (case ro of None \<Rightarrow> key l \<notin> fst ` set right | Some v \<Rightarrow> (key l, v) \<in> set right)"
proof -
  from assms obtain l' where l': "l' \<in> set left"
    and mem: "(l, ro) \<in> set (case filter (\<lambda>r. fst r = key l') right of
                               [] \<Rightarrow> [(l', None)]
                             | ms \<Rightarrow> map (\<lambda>r. (l', Some (snd r))) ms)"
    by (auto simp: merge_left_def)
  show ?thesis
  proof (cases "filter (\<lambda>r. fst r = key l') right")
    case Nil
    with mem have "l = l'" "ro = None" by simp_all
    moreover from Nil have "key l' \<notin> fst ` set right"
      by (auto simp: filter_empty_conv)
    ultimately show ?thesis using l' by simp
  next
    case (Cons m ms)
    with mem have "(l, ro) \<in> set (map (\<lambda>r. (l', Some (snd r))) (m # ms))" by simp
    then obtain r where r: "r \<in> set (m # ms)" and eq: "(l, ro) = (l', Some (snd r))"
      unfolding set_map by blast
    from r Cons have "r \<in> set (filter (\<lambda>r. fst r = key l') right)" by simp
    then have "fst r = key l'" and "r \<in> set right" by simp_all
    then have "(key l', snd r) \<in> set right" by (metis prod.collapse)
    with eq l' show ?thesis by simp
  qed
qed

lemma merge_left_covers:
  "l \<in> set left \<Longrightarrow> \<exists>ro. (l, ro) \<in> set (merge_left key right left)"
proof -
  assume l: "l \<in> set left"
  show ?thesis
  proof (cases "filter (\<lambda>r. fst r = key l) right")
    case Nil
    with l have "(l, None) \<in> set (merge_left key right left)"
      by (force simp: merge_left_def)
    then show ?thesis ..
  next
    case (Cons m ms)
    with l have "(l, Some (snd m)) \<in> set (merge_left key right left)"
      by (force simp: merge_left_def)
    then show ?thesis ..
  qed
qed

lemma filter_distinct_key:
  "distinct (map fst right) \<Longrightarrow>
     filter (\<lambda>r. fst r = k) right = (case map_of right k of None \<Rightarrow> [] | Some v \<Rightarrow> [(k, v)])"
proof (induction right)
  case Nil
  then show ?case by simp
next
  case (Cons r right)
  obtain a b where r: "r = (a, b)" by (cases r)
  show ?case
  proof (cases "a = k")
    case True
    with Cons.prems r have "k \<notin> fst ` set right" by auto
    then have "filter (\<lambda>r. fst r = k) right = []"
      by (auto simp: filter_empty_conv)
    with True r show ?thesis by simp
  next
    case False
    with Cons r show ?thesis by simp
  qed
qed

lemma merge_left_distinct:
  assumes "distinct (map fst right)"
  shows "merge_left key right left = map (\<lambda>l. (l, map_of right (key l))) left"
proof -
  have "(case filter (\<lambda>r. fst r = key l) right of
           [] \<Rightarrow> [(l, None)] | ms \<Rightarrow> map (\<lambda>r. (l, Some (snd r))) ms) =
        [(l, map_of right (key l))]" for l
    by (simp add: filter_distinct_key [OF assms] split: option.split)
  then show ?thesis
    by (simp add: merge_left_def)
qed

lemma indicator_sum:
  "distinct ks \<Longrightarrow> a \<in> set ks \<Longrightarrow> (\<Sum>k\<leftarrow>ks. if a = k then 1 else 0) = (1::nat)"
  by (induction ks) auto

lemma count_partition:
  "distinct ks \<Longrightarrow> snd ` set xs \<subseteq> set ks \<Longrightarrow>
     (\<Sum>k\<leftarrow>ks. length (filter (\<lambda>p. fst p = c \<and> snd p = k) xs)) = length (filter (\<lambda>p. fst p = c) xs)"
proof (induction xs)
  case Nil
  then show ?case by (simp add: sum_list_0)
next
  case (Cons x xs)
  have each: "length (filter (\<lambda>p. fst p = c \<and> snd p = k) (x # xs)) =
       (if fst x = c then (if snd x = k then 1 else 0) else 0) + length (filter (\<lambda>p. fst p = c \<and> snd p = k) xs)" for k
    by simp
  have "(\<Sum>k\<leftarrow>ks. if fst x = c then (if snd x = k then 1 else 0) else (0::nat)) = (if fst x = c then 1 else 0)"
    using Cons.prems indicator_sum [of ks "snd x"] by (auto simp: sum_list_0)
  with Cons show ?case
    by (simp only: each sum_list_addf) auto
qed

lemma real_sum_list: "real (\<Sum>k\<leftarrow>ks. f k) = (\<Sum>k\<leftarrow>ks. real (f k))"
  by (induction ks) auto

lemma sum_list_divide:
  "(\<Sum>k\<leftarrow>ks. f k / (d::real)) = (\<Sum>k\<leftarrow>ks. f k) / d"
  by (induction ks) (auto simp: add_divide_distrib)

lemma crosstab_row_sum:
  assumes "c \<in> fst ` set pairs"
  shows "(\<Sum>k\<leftarrow>sort (remdups (map snd pairs)).
            real (length (filter (\<lambda>p. fst p = c \<and> snd p = k) pairs))
            / real (length (filter (\<lambda>p. fst p = c) pairs))) = 1"
proof -
  have pos: "length (filter (\<lambda>p. fst p = c) pairs) \<noteq> 0"
    using assms by (auto simp: filter_empty_conv)
  have "(\<Sum>k\<leftarrow>sort (remdups (map snd pairs)). length (filter (\<lambda>p. fst p = c \<and> snd p = k) pairs))
          = length (filter (\<lambda>p. fst p = c) pairs)"
    by (rule count_partition) auto
  then have "(\<Sum>k\<leftarrow>sort (remdups (map snd pairs)). real (length (filter (\<lambda>p. fst p = c \<and> snd p = k) pairs)))
          = real (length (filter (\<lambda>p. fst p = c) pairs))"
    by (simp only: real_sum_list [symmetric])
  with pos show ?thesis
    by (simp add: sum_list_divide)
qed

lemma maximum_Max:
  assumes "xs \<noteq> []"
  shows "maximum xs = Some (Max (set xs))"
proof (cases xs)
  case Nil
  with assms show ?thesis by simp
next
  case (Cons x ys)
  then show ?thesis
    using Max.set_eq_fold [of x ys] by (simp only: maximum_def list.case)
qed


lemma features_unfold:
  assumes "create_customer_features (Some cs) (Some ts) (Some ps) = (Returned (Some ff), out)"
  shows "ff = \<lparr>category_columns = value_columns (crosstab_normalized (merge_products ts ps)),
               region_columns = value_columns (get_dummies cs),
               feature_rows =
                 map (fillna (length (value_columns (crosstab_normalized (merge_products ts ps))))
                        (length (value_columns (get_dummies cs))))
                   (merge_left (\<lambda>m. stats_CustomerID (fst (fst m))) (table_rows (get_dummies cs))
                     (merge_left (\<lambda>m. stats_CustomerID (fst m)) (recency_table ts)
                       (merge_left stats_CustomerID
                          (table_rows (crosstab_normalized (merge_products ts ps)))
                          (groupby_agg ts))))\<rparr>"
  using assms
  by (simp add: create_customer_features_def Let_def merge_all_def except_branch_def
      split: if_splits)

lemma crosstab_keys:
  "map fst (table_rows (crosstab_normalized pairs)) = sort (remdups (map fst pairs))"
  by (simp add: crosstab_normalized_def comp_def)

lemma recency_keys: "map fst (recency_table ts) = group_keys ts"
  by (simp add: recency_table_def comp_def)

lemma stats_keys: "map stats_CustomerID (groupby_agg ts) = group_keys ts"
  by (simp add: groupby_agg_def comp_def)

lemma dummies_keys: "map fst (table_rows (get_dummies cs)) = map customer_CustomerID cs"
  by (simp add: get_dummies_def comp_def)

lemma distinct_group_keys: "distinct (group_keys ts)"
  by (simp add: group_keys_def)

lemma set_group_keys: "set (group_keys ts) = CustomerID ` set ts"
  by (simp add: group_keys_def)

text \<open>A row of the feature table, traced back through fillna and the three merges.\<close>

lemma feature_row_origin:
  assumes "create_customer_features (Some cs) (Some ts) (Some ps) = (Returned (Some ff), out)"
    and "r \<in> set (feature_rows ff)"
  shows "\<exists>st shares rec flags.
           r = fillna (length (category_columns ff)) (length (region_columns ff))
                 (((st, shares), rec), flags) \<and>
           st \<in> set (groupby_agg ts) \<and>
           shares = map_of (table_rows (crosstab_normalized (merge_products ts ps)))
                      (stats_CustomerID st) \<and>
           rec = map_of (recency_table ts) (stats_CustomerID st)"
proof -
  let ?ct = "table_rows (crosstab_normalized (merge_products ts ps))"
  let ?m1 = "merge_left stats_CustomerID ?ct (groupby_agg ts)"
  let ?m2 = "merge_left (\<lambda>m. stats_CustomerID (fst m)) (recency_table ts) ?m1"
  let ?m3 = "merge_left (\<lambda>m. stats_CustomerID (fst (fst m))) (table_rows (get_dummies cs)) ?m2"
  note ff = features_unfold [OF assms(1)]
  have m1: "?m1 = map (\<lambda>l. (l, map_of ?ct (stats_CustomerID l))) (groupby_agg ts)"
    by (rule merge_left_distinct) (simp add: crosstab_keys)
  have m2: "?m2 = map (\<lambda>l. (l, map_of (recency_table ts) (stats_CustomerID (fst l)))) ?m1"
    by (rule merge_left_distinct) (simp add: recency_keys distinct_group_keys)
  from assms(2) obtain m where m: "m \<in> set ?m3"
    and r: "r = fillna (length (category_columns ff)) (length (region_columns ff)) m"
    by (subst (asm) ff) (auto simp: ff)
  obtain l2 flags where mm: "m = (l2, flags)" by (cases m)
  with m have "l2 \<in> set ?m2"
    using merge_left_member [of l2 flags _ _ ?m2] by blast
  then obtain l1 where l1: "l1 \<in> set ?m1"
    and l2: "l2 = (l1, map_of (recency_table ts) (stats_CustomerID (fst l1)))"
    by (subst (asm) m2) auto
  from l1 obtain st where st: "st \<in> set (groupby_agg ts)"
    and l1': "l1 = (st, map_of ?ct (stats_CustomerID st))"
    by (subst (asm) m1) auto
  show ?thesis
    using r mm l2 l1' st by auto
qed

lemma example_eval:
  "create_customer_features (Some example_customers) (Some example_transactions)
     (Some example_products) = (Returned (Some example_frame), [])"
  by (simp add: create_customer_features_def example_customers_def example_transactions_def
      example_products_def groupby_agg_def group_keys_def group_of_def merge_products_def
      crosstab_normalized_def recency_table_def maximum_def days_between_def
      nanoseconds_per_day_def get_dummies_def merge_all_def merge_left_def fillna_def Let_def
      example_frame_def example_row_def)

lemma merge_left_fst: "fst ` set (merge_left key right left) = set left"
proof (rule set_eqI)
  fix l
  show "(l \<in> fst ` set (merge_left key right left)) = (l \<in> set left)"
    using merge_left_member [of l _ key right left] merge_left_covers [of l left key right]
    by force
qed

lemma merge_left_image:
  "(\<lambda>m. g (fst m)) ` set (merge_left key right left) = g ` set left"
proof -
  have "(\<lambda>m. g (fst m)) ` set (merge_left key right left) =
        g ` fst ` set (merge_left key right left)"
    by (simp add: image_image)
  then show ?thesis
    by (simp only: merge_left_fst)
qed

lemma fillna_id: "feature_CustomerID (fillna a b m) = stats_CustomerID (fst (fst (fst m)))"
  by (cases m) (auto simp: fillna_def split: prod.splits)

lemma feature_ids_set:
  assumes "create_customer_features (Some cs) (Some ts) (Some ps) = (Returned (Some ff), out)"
  shows "feature_CustomerID ` set (feature_rows ff) = CustomerID ` set ts"
proof -
  let ?ct = "table_rows (crosstab_normalized (merge_products ts ps))"
  let ?m1 = "merge_left stats_CustomerID ?ct (groupby_agg ts)"
  let ?m2 = "merge_left (\<lambda>m. stats_CustomerID (fst m)) (recency_table ts) ?m1"
  let ?m3 = "merge_left (\<lambda>m. stats_CustomerID (fst (fst m))) (table_rows (get_dummies cs)) ?m2"
  have "feature_CustomerID ` set (feature_rows ff) =
        (\<lambda>m. stats_CustomerID (fst (fst (fst m)))) ` set ?m3"
    by (subst features_unfold [OF assms]) (simp add: image_image fillna_id)
  also have "\<dots> = (\<lambda>m. stats_CustomerID (fst (fst m))) ` set ?m2"
    by (rule merge_left_image)
  also have "\<dots> = (\<lambda>m. stats_CustomerID (fst m)) ` set ?m1"
    by (rule merge_left_image)
  also have "\<dots> = stats_CustomerID ` set (groupby_agg ts)"
    by (rule merge_left_image)
  also have "\<dots> = set (map stats_CustomerID (groupby_agg ts))"
    by simp
  also have "\<dots> = CustomerID ` set ts"
    by (simp only: stats_keys set_group_keys)
  finally show ?thesis .
qed

lemma crosstab_lookup:
  assumes "map_of (table_rows (crosstab_normalized pairs)) c = Some vs"
  shows "c \<in> fst ` set pairs \<and>
         vs = map (\<lambda>k. real (length (filter (\<lambda>p. fst p = c \<and> snd p = k) pairs))
                        / real (length (filter (\<lambda>p. fst p = c) pairs)))
                (sort (remdups (map snd pairs)))"
proof -
  from assms have "(c, vs) \<in> set (table_rows (crosstab_normalized pairs))"
    by (rule map_of_SomeD)
  then show ?thesis
    by (auto simp: crosstab_normalized_def)
qed

lemma crosstab_lookup_None:
  assumes "map_of (table_rows (crosstab_normalized pairs)) c = None"
  shows "c \<notin> fst ` set pairs"
proof -
  from assms have "c \<notin> fst ` set (table_rows (crosstab_normalized pairs))"
    by (simp add: map_of_eq_None_iff)
  then have "c \<notin> set (map fst (table_rows (crosstab_normalized pairs)))"
    by simp
  then show ?thesis
    by (simp only: crosstab_keys) simp
qed

lemma map_of_keyed:
  "c \<in> set keys \<Longrightarrow> map_of (map (\<lambda>c. (c, f c)) keys) c = Some (f c)"
  by (induction keys) auto

lemma recency_lookup:
  assumes "c \<in> CustomerID ` set ts"
  shows "map_of (recency_table ts) c =
           Some (Some ((Max (TransactionDate ` set ts)
                        - Max (TransactionDate ` set (group_of ts c))) div nanoseconds_per_day))"
proof -
  from assms have grp: "group_of ts c \<noteq> []"
    by (auto simp: group_of_def filter_empty_conv)
  then have all: "ts \<noteq> []"
    by (auto simp: group_of_def)
  have "maximum (map TransactionDate ts) = Some (Max (TransactionDate ` set ts))"
    using maximum_Max [of "map TransactionDate ts"] all by simp
  moreover have "maximum (map TransactionDate (group_of ts c)) =
                 Some (Max (TransactionDate ` set (group_of ts c)))"
    using maximum_Max [of "map TransactionDate (group_of ts c)"] grp by simp
  moreover have "c \<in> set (group_keys ts)"
    using assms by (simp add: set_group_keys)
  ultimately show ?thesis
    by (simp add: recency_table_def map_of_keyed days_between_def)
qed

lemma own_latest_le_latest:
  assumes "c \<in> CustomerID ` set ts"
  shows "Max (TransactionDate ` set (group_of ts c)) \<le> Max (TransactionDate ` set ts)"
proof (rule Max_mono)
  show "TransactionDate ` set (group_of ts c) \<subseteq> TransactionDate ` set ts"
    by (auto simp: group_of_def)
  show "TransactionDate ` set (group_of ts c) \<noteq> {}"
    using assms by (auto simp: group_of_def filter_empty_conv)
  show "finite (TransactionDate ` set ts)"
    by simp
qed

text \<open>
  The function returns a table unless a product category is called \<^verbatim>\<open>CustomerID\<close>.
\<close>

lemma features_produced:
  assumes "''CustomerID'' \<notin> Category ` set ps"
  shows "\<exists>ff. create_customer_features (Some cs) (Some ts) (Some ps) = (Returned (Some ff), [])"
proof -
  have "snd ` set (merge_products ts ps) \<subseteq> Category ` set ps"
    by (auto simp: merge_products_def)
  with assms have "''CustomerID'' \<notin> set (value_columns (crosstab_normalized (merge_products ts ps)))"
    by (auto simp: crosstab_normalized_def)
  then show ?thesis
    by (simp add: create_customer_features_def Let_def merge_all_def)
qed

lemma repeated_eval:
  "create_customer_features (Some repeated_customers) (Some single_transaction)
     (Some example_products) =
   (Returned (Some
      \<lparr>category_columns = [''Books''],
       region_columns = [''region_Asia''],
       feature_rows =
         [example_row ''C0001'' 50 50 1 2 2 [1] 0 [1],
          example_row ''C0001'' 50 50 1 2 2 [1] 0 [1]]\<rparr>), [])"
  by (simp add: create_customer_features_def repeated_customers_def single_transaction_def
      example_products_def groupby_agg_def group_keys_def group_of_def merge_products_def
      crosstab_normalized_def recency_table_def maximum_def days_between_def
      nanoseconds_per_day_def get_dummies_def merge_all_def merge_left_def fillna_def Let_def
      example_row_def)

subsection \<open>Claims about create\_customer\_features\<close>

text \<open>
  Claim C1: in the feature table the function returns, the category shares of every
  row are non-negative, there is one per category column, and for a customer with at
  least one transaction joined to a product they sum to 1.
\<close>

theorem category_shares_sum_to_one:
  assumes "create_customer_features (Some cs) (Some ts) (Some ps) = (Returned (Some ff), out)"
    and "r \<in> set (feature_rows ff)"
  shows "list_all (\<lambda>v. 0 \<le> v) (category_shares r) \<and>
         length (category_shares r) = length (category_columns ff) \<and>
         (feature_CustomerID r \<in> fst ` set (merge_products ts ps)
            \<longrightarrow> sum_list (category_shares r) = 1)"
proof -
  let ?pairs = "merge_products ts ps"
  from feature_row_origin [OF assms] obtain st shares rec flags where
    r: "r = fillna (length (category_columns ff)) (length (region_columns ff))
              (((st, shares), rec), flags)"
    and shares: "shares = map_of (table_rows (crosstab_normalized ?pairs)) (stats_CustomerID st)"
    by blast
  have cols: "category_columns ff = sort (remdups (map snd ?pairs))"
    by (subst features_unfold [OF assms(1)]) (simp add: crosstab_normalized_def)
  have id: "feature_CustomerID r = stats_CustomerID st"
    by (simp add: r fillna_def)
  show ?thesis
  proof (cases shares)
    case None
    then have "category_shares r = replicate (length (category_columns ff)) 0"
      by (simp add: r fillna_def)
    moreover have "stats_CustomerID st \<notin> fst ` set ?pairs"
      using None shares crosstab_lookup_None by metis
    ultimately show ?thesis
      by (simp add: id list_all_iff)
  next
    case (Some vs)
    then have cs: "category_shares r = vs"
      by (simp add: r fillna_def)
    from Some shares crosstab_lookup [of ?pairs "stats_CustomerID st" vs]
    have mem: "stats_CustomerID st \<in> fst ` set ?pairs"
      and vs: "vs = map (\<lambda>k. real (length (filter (\<lambda>p. fst p = stats_CustomerID st \<and> snd p = k) ?pairs))
                        / real (length (filter (\<lambda>p. fst p = stats_CustomerID st) ?pairs)))
                (sort (remdups (map snd ?pairs)))"
      by simp_all
    have "sum_list vs = 1"
      by (subst vs) (rule crosstab_row_sum [OF mem])
    moreover have "list_all (\<lambda>v. 0 \<le> v) vs"
      by (subst vs) (simp add: list_all_iff)
    moreover have "length vs = length (category_columns ff)"
      by (subst vs) (simp add: cols)
    ultimately show ?thesis
      by (simp add: cs)
  qed
qed

theorem category_shares_sum_to_one_witness:
  "create_customer_features (Some example_customers) (Some example_transactions)
     (Some example_products) = (Returned (Some example_frame), []) \<and>
   example_row ''C0001'' 350 (350 / 3) 3 4 (4 / 3) [1 / 3, 2 / 3] 6 [1, 0]
     \<in> set (feature_rows example_frame) \<and>
   ''C0001'' \<in> fst ` set (merge_products example_transactions example_products) \<and>
   sum_list (category_shares
     (example_row ''C0001'' 350 (350 / 3) 3 4 (4 / 3) [1 / 3, 2 / 3] 6 [1, 0])) = 1"
  using category_shares_sum_to_one [OF example_eval,
      of "example_row ''C0001'' 350 (350 / 3) 3 4 (4 / 3) [1 / 3, 2 / 3] 6 [1, 0]"]
    example_eval
  by (simp add: example_frame_def example_row_def merge_products_def
      example_transactions_def example_products_def)

text \<open>
  Claim C3 says that recency is the latest transaction time of the whole table minus
  the customer's own latest, in whole days, that it is never negative, and that it is 0
  exactly for the customers whose latest transaction falls on the globally latest
  date. The last part fails: the days are rounded down, so in the small data set
  customer \<open>C0004\<close>, whose latest transaction is at 23:00 of day 9 while the latest
  of all is at 0:00 of day 10, has recency 0 as well.
\<close>

theorem recency_zero_counterexample:
  "create_customer_features (Some example_customers) (Some example_transactions)
     (Some example_products) = (Returned (Some example_frame), []) \<and>
   example_row ''C0004'' 20 20 1 1 1 [0, 0] 0 [0, 0] \<in> set (feature_rows example_frame) \<and>
   recency (example_row ''C0004'' 20 20 1 1 1 [0, 0] 0 [0, 0]) = 0 \<and>
   maximum (map TransactionDate (group_of example_transactions ''C0004'')) =
     Some 860400000000000 \<and>
   maximum (map TransactionDate example_transactions) = Some 864000000000000 \<and>
   860400000000000 div nanoseconds_per_day = 9 \<and>
   864000000000000 div nanoseconds_per_day = 10"
  by (simp add: example_eval)
    (simp add: example_frame_def example_row_def example_transactions_def group_of_def
      maximum_def nanoseconds_per_day_def)

text \<open>
  Claim C3 as amended: every row of the feature table belongs to a customer with a
  transaction, and its recency is the latest transaction time of the whole table minus
  the latest of that customer, in whole days rounded down. It is never negative; it is
  0 for a customer whose latest transaction is the latest of all, and it is 0 exactly
  when the customer's latest transaction is less than one day before the latest of all.
\<close>

theorem recency_in_whole_days:
  assumes "create_customer_features (Some cs) (Some ts) (Some ps) = (Returned (Some ff), out)"
    and "r \<in> set (feature_rows ff)"
  shows "feature_CustomerID r \<in> CustomerID ` set ts \<and>
         recency r = (Max (TransactionDate ` set ts)
                       - Max (TransactionDate ` set (group_of ts (feature_CustomerID r))))
                     div nanoseconds_per_day \<and>
         0 \<le> recency r \<and>
         (Max (TransactionDate ` set (group_of ts (feature_CustomerID r)))
            = Max (TransactionDate ` set ts) \<longrightarrow> recency r = 0) \<and>
         (recency r = 0) =
           (Max (TransactionDate ` set ts)
              - Max (TransactionDate ` set (group_of ts (feature_CustomerID r)))
            < nanoseconds_per_day)"
proof -
  from feature_row_origin [OF assms] obtain st shares rec flags where
    r: "r = fillna (length (category_columns ff)) (length (region_columns ff))
              (((st, shares), rec), flags)"
    and rec: "rec = map_of (recency_table ts) (stats_CustomerID st)"
    by blast
  have id: "feature_CustomerID r = stats_CustomerID st"
    by (simp add: r fillna_def)
  have mem: "feature_CustomerID r \<in> CustomerID ` set ts"
    using feature_ids_set [OF assms(1)] assms(2) by blast
  have formula: "recency r = (Max (TransactionDate ` set ts)
                       - Max (TransactionDate ` set (group_of ts (feature_CustomerID r))))
                     div nanoseconds_per_day"
    using recency_lookup [OF mem] unfolding id by (simp add: r rec fillna_def)
  have "0 \<le> Max (TransactionDate ` set ts)
               - Max (TransactionDate ` set (group_of ts (feature_CustomerID r)))"
    using own_latest_le_latest [OF mem] by simp
  then have "0 \<le> recency r" and "(recency r = 0) =
           (Max (TransactionDate ` set ts)
              - Max (TransactionDate ` set (group_of ts (feature_CustomerID r)))
            < nanoseconds_per_day)"
    by (auto simp add: formula nanoseconds_per_day_def pos_imp_zdiv_nonneg_iff zdiv_eq_0_iff)
  with mem formula show ?thesis
    by (simp add: nanoseconds_per_day_def)
qed

theorem recency_in_whole_days_witness:
  "create_customer_features (Some example_customers) (Some example_transactions)
     (Some example_products) = (Returned (Some example_frame), []) \<and>
   example_row ''C0002'' 100 100 1 4 4 [1, 0] 0 [0, 1] \<in> set (feature_rows example_frame) \<and>
   ''C0002'' \<in> CustomerID ` set example_transactions \<and>
   recency (example_row ''C0002'' 100 100 1 4 4 [1, 0] 0 [0, 1]) =
     (Max (TransactionDate ` set example_transactions)
      - Max (TransactionDate ` set (group_of example_transactions ''C0002'')))
     div nanoseconds_per_day \<and>
   0 \<le> recency (example_row ''C0002'' 100 100 1 4 4 [1, 0] 0 [0, 1])"
  using recency_in_whole_days [OF example_eval,
      of "example_row ''C0002'' 100 100 1 4 4 [1, 0] 0 [0, 1]"]
    example_eval
  by (simp add: example_frame_def example_row_def)

text \<open>
  Claim C7 says that for every input the feature table has exactly one row per customer
  identifier of the transactions table. The left merge with the region indicators
  repeats a row for every row of the customer table with that identifier: a customer
  listed twice in the customer table gets two rows.
\<close>

theorem repeated_customer_counterexample:
  "create_customer_features (Some repeated_customers) (Some single_transaction)
     (Some example_products) =
   (Returned (Some
      \<lparr>category_columns = [''Books''],
       region_columns = [''region_Asia''],
       feature_rows =
         [example_row ''C0001'' 50 50 1 2 2 [1] 0 [1],
          example_row ''C0001'' 50 50 1 2 2 [1] 0 [1]]\<rparr>), []) \<and>
   map CustomerID single_transaction = [''C0001'']"
  by (simp add: repeated_eval) (simp add: single_transaction_def)

text \<open>
  Claim C7 as amended: when no identifier is repeated in the customer table, the
  feature table has exactly one row for each customer identifier of the transactions
  table, and no other row; so a customer without transactions has none.
\<close>

theorem one_row_per_transacting_customer:
  assumes "create_customer_features (Some cs) (Some ts) (Some ps) = (Returned (Some ff), out)"
    and "distinct (map customer_CustomerID cs)"
  shows "distinct (map feature_CustomerID (feature_rows ff)) \<and>
         set (map feature_CustomerID (feature_rows ff)) = CustomerID ` set ts"
proof -
  let ?ct = "table_rows (crosstab_normalized (merge_products ts ps))"
  let ?m1 = "merge_left stats_CustomerID ?ct (groupby_agg ts)"
  let ?m2 = "merge_left (\<lambda>m. stats_CustomerID (fst m)) (recency_table ts) ?m1"
  let ?m3 = "merge_left (\<lambda>m. stats_CustomerID (fst (fst m))) (table_rows (get_dummies cs)) ?m2"
  have m1: "map fst ?m1 = groupby_agg ts"
    by (subst merge_left_distinct) (simp_all add: crosstab_keys comp_def)
  have m2: "map fst ?m2 = ?m1"
    by (subst merge_left_distinct) (simp_all add: recency_keys distinct_group_keys comp_def)
  have m3: "map fst ?m3 = ?m2"
    by (subst merge_left_distinct) (simp_all add: dummies_keys assms(2) comp_def)
  have "map feature_CustomerID (feature_rows ff) =
        map (\<lambda>m. stats_CustomerID (fst (fst (fst m)))) ?m3"
    by (subst features_unfold [OF assms(1)]) (simp add: fillna_id comp_def)
  also have "\<dots> = map stats_CustomerID (map fst (map fst (map fst ?m3)))"
    by (simp add: comp_def)
  also have "\<dots> = map stats_CustomerID (groupby_agg ts)"
    by (simp only: m3 m2 m1)
  also have "\<dots> = group_keys ts"
    by (rule stats_keys)
  finally have "map feature_CustomerID (feature_rows ff) = group_keys ts" .
  then show ?thesis
    by (simp add: distinct_group_keys set_group_keys)
qed

theorem one_row_per_transacting_customer_witness:
  "create_customer_features (Some example_customers) (Some example_transactions)
     (Some example_products) = (Returned (Some example_frame), []) \<and>
   distinct (map customer_CustomerID example_customers) \<and>
   distinct (map feature_CustomerID (feature_rows example_frame)) \<and>
   set (map feature_CustomerID (feature_rows example_frame)) =
     CustomerID ` set example_transactions \<and>
   ''C0003'' \<in> customer_CustomerID ` set example_customers \<and>
   ''C0003'' \<notin> set (map feature_CustomerID (feature_rows example_frame))"
proof -
  have d: "distinct (map customer_CustomerID example_customers)"
    by (simp add: example_customers_def)
  show ?thesis
    using one_row_per_transacting_customer [OF example_eval d] example_eval d
    by (simp add: example_customers_def example_transactions_def)
qed

text \<open>
  Claim C9: the function of the lookalike notebook and the function of the clustering
  notebook return the same result and print the same lines on every input.
\<close>

theorem both_notebooks_same_features:
  "create_customer_features_lookalike customers transactions products =
     create_customer_features customers transactions products"
  by (simp add: create_customer_features_lookalike_def create_customer_features_def)

text \<open>
  Claim C4 says that an exception in the \<^verbatim>\<open>try\<close> block never reaches the caller. When
  \<^verbatim>\<open>load_data\<close> failed and returned \<^verbatim>\<open>None\<close> three times, the first statement
  raises, the \<^verbatim>\<open>except\<close> branch prints two lines and then reads \<^verbatim>\<open>purchase_stats\<close>,
  which was never assigned: \<^verbatim>\<open>UnboundLocalError\<close> leaves the function.
\<close>

theorem handler_raises_on_failed_load:
  "create_customer_features None None None =
     (Propagated UnboundLocalError, [ErrorCreatingFeatures AttributeError, DebuggingInfo])"
  by (simp add: create_customer_features_def except_branch_def)

section \<open>Saving the recommendations\<close>

subsection \<open>save\_recommendations\<close>

text \<open>
  \<^verbatim>\<open>f"{score:.4f}"\<close> prints the number rounded to four decimal places, a value half way
  between two of them going to the even one: the sign, the whole part, a point and
  four digits.
\<close>

definition round_half_even :: "real \<Rightarrow> int" where
  "round_half_even x =
     (if x - of_int \<lfloor>x\<rfloor> < 1 / 2 then \<lfloor>x\<rfloor>
      else if 1 / 2 < x - of_int \<lfloor>x\<rfloor> then \<lfloor>x\<rfloor> + 1
      else if even \<lfloor>x\<rfloor> then \<lfloor>x\<rfloor> else \<lfloor>x\<rfloor> + 1)"

definition digit_char :: "nat \<Rightarrow> char" where
  "digit_char d = ''0123456789'' ! d"

fun digits_of :: "nat \<Rightarrow> string" where
  "digits_of n = (if n < 10 then [digit_char n] else digits_of (n div 10) @ [digit_char (n mod 10)])"

declare digits_of.simps [simp del]

definition fraction_digits :: "nat \<Rightarrow> string" where
  "fraction_digits k =
     [digit_char (k div 1000 mod 10), digit_char (k div 100 mod 10),
      digit_char (k div 10 mod 10), digit_char (k mod 10)]"

definition format_score :: "real \<Rightarrow> string" where
  "format_score score =
     (if score < 0 then ''-'' else []) @
     digits_of (nat (round_half_even (\<bar>score\<bar> * 10000)) div 10000) @ ''.'' @
     fraction_digits (nat (round_half_even (\<bar>score\<bar> * 10000)) mod 10000)"

text \<open>\<^verbatim>\<open>sep.join(xs)\<close>\<close>

fun join :: "string \<Rightarrow> string list \<Rightarrow> string" where
  "join sep [] = []"
| "join sep [x] = x"
| "join sep (x # y # ys) = x @ sep @ join sep (y # ys)"

text \<open>\<^verbatim>\<open>f"{cid},{score:.4f}"\<close>\<close>

definition encode_pair :: "string \<times> real \<Rightarrow> string" where
  "encode_pair p = fst p @ '','' @ format_score (snd p)"

text \<open>
  The function. The file is modelled as the rows of the data frame that
  \<^verbatim>\<open>to_csv\<close> writes, a \<^verbatim>\<open>CustomerID\<close> and a \<^verbatim>\<open>Recommendations\<close> field each; the
  quoting of fields in the file is the library's. When \<^verbatim>\<open>recommendations\<close> is
  \<^verbatim>\<open>None\<close> (\<open>calculate_similarity\<close> failed), \<^verbatim>\<open>recommendations.items()\<close> raises, the
  error is printed and no file is written.
\<close>

definition save_recommendations ::
    "(string \<times> (string \<times> real) list) list option \<Rightarrow> (string \<times> string) list option" where
  "save_recommendations recommendations =
     (case recommendations of
        None \<Rightarrow> None
      | Some items \<Rightarrow>
          Some (map (\<lambda>(cust_id, recs). (cust_id, join '';'' (map encode_pair recs))) items))"

subsection \<open>Reading the file back\<close>

text \<open>
  Modelled from the spec: the repository has no function that reads the
  recommendations file. The reader below follows the spec's description of the file: the
  \<^verbatim>\<open>Recommendations\<close> field holds (neighbor id, score) pairs separated by semicolons,
  the two fields of a pair separated by a comma, the score a decimal number. The first
  function splits a string at a separator, as \<^verbatim>\<open>str.split\<close> does.
\<close>

fun split_on :: "char \<Rightarrow> string \<Rightarrow> string list" where
  "split_on c [] = [[]]"
| "split_on c (x # xs) =
     (if x = c then [] # split_on c xs
      else (case split_on c xs of [] \<Rightarrow> [[x]] | w # ws \<Rightarrow> (x # w) # ws))"

text \<open>Modelled from the spec: a decimal digit (the repository has no reader).\<close>

definition is_digit :: "char \<Rightarrow> bool" where
  "is_digit c = (48 \<le> (of_char c :: nat) \<and> (of_char c :: nat) \<le> 57)"

text \<open>Modelled from the spec: a non-empty run of digits read as a number.\<close>

definition parse_nat :: "string \<Rightarrow> nat option" where
  "parse_nat s =
     (if s \<noteq> [] \<and> list_all is_digit s
      then Some (foldl (\<lambda>acc c. 10 * acc + (of_char c - 48)) 0 s) else None)"

text \<open>Modelled from the spec: digits, a point, digits, read as a decimal number.\<close>

definition parse_magnitude :: "string \<Rightarrow> real option" where
  "parse_magnitude s =
     (case split_on CHR ''.'' s of
        [ip, fp] \<Rightarrow>
          (case (parse_nat ip, parse_nat fp) of
             (Some i, Some f) \<Rightarrow> Some (real i + real f / 10 ^ length fp)
           | _ \<Rightarrow> None)
      | _ \<Rightarrow> None)"

text \<open>Modelled from the spec: a score, a decimal number with an optional minus sign.\<close>

definition parse_score :: "string \<Rightarrow> real option" where
  "parse_score s =
     (case s of
        [] \<Rightarrow> None
      | c # rest \<Rightarrow> if c = CHR ''-'' then map_option uminus (parse_magnitude rest)
                  else parse_magnitude s)"

text \<open>Modelled from the spec: one pair, the neighbor id and the score around a comma.\<close>

definition parse_pair :: "string \<Rightarrow> (string \<times> real) option" where
  "parse_pair s =
     (case split_on CHR '','' s of
        [cid, score] \<Rightarrow> map_option (Pair cid) (parse_score score)
      | _ \<Rightarrow> None)"

text \<open>
  Modelled from the spec: the \<^verbatim>\<open>Recommendations\<close> field, pairs separated by semicolons;
  the empty field is the empty list.
\<close>

definition parse_recommendations :: "string \<Rightarrow> (string \<times> real) list option" where
  "parse_recommendations s =
     (if s = [] then Some [] else those (map parse_pair (split_on CHR '';'' s)))"

text \<open>Modelled from the spec: the whole file, row by row.\<close>

definition load_recommendations ::
    "(string \<times> string) list \<Rightarrow> (string \<times> (string \<times> real) list) list option" where
  "load_recommendations file_rows =
     those (map (\<lambda>(cust_id, s). map_option (Pair cust_id) (parse_recommendations s)) file_rows)"

text \<open>A score as it reads after being printed with four decimal places.\<close>

definition rounded_score :: "real \<Rightarrow> real" where
  "rounded_score score =
     (if score < 0 then - (real (nat (round_half_even (\<bar>score\<bar> * 10000))) / 10000)
      else real (nat (round_half_even (\<bar>score\<bar> * 10000))) / 10000)"

text \<open>An identifier that contains neither of the two separators.\<close>

definition separator_free :: "string \<Rightarrow> bool" where
  "separator_free cid = (CHR '','' \<notin> set cid \<and> CHR '';'' \<notin> set cid)"

text \<open>
  Four customers with three feature columns; seen from \<open>C0001\<close> every other customer
  has similarity \<open>- 1 / 3\<close>.
\<close>

definition third_features :: feature_table where
  "third_features =
     [(''C0001'', [3, 3, 3]), (''C0002'', [1, 3, 1]),
      (''C0003'', [3, 1, 1]), (''C0004'', [1, 1, 3])]"

subsection \<open>Facts about printing and reading\<close>

lemma split_on_nonempty: "split_on c s \<noteq> []"
  by (induction s) (auto split: list.splits)

lemma split_on_no_sep: "c \<notin> set x \<Longrightarrow> split_on c x = [x]"
  by (induction x) auto

lemma split_on_append_sep: "c \<notin> set x \<Longrightarrow> split_on c (x @ c # rest) = x # split_on c rest"
  by (induction x) (auto simp: split_on_nonempty split: list.splits)

lemma split_join:
  "xs \<noteq> [] \<Longrightarrow> \<forall>x\<in>set xs. c \<notin> set x \<Longrightarrow> split_on c (join [c] xs) = xs"
proof (induction "[c]" xs rule: join.induct)
  case 1
  then show ?case by simp
next
  case (2 x)
  then show ?case by (simp add: split_on_no_sep)
next
  case (3 x y ys)
  then show ?case by (simp add: split_on_append_sep)
qed

lemma small_digit:
  assumes "d < 10"
  shows "d = 0 \<or> d = 1 \<or> d = 2 \<or> d = 3 \<or> d = 4 \<or> d = 5 \<or> d = 6 \<or> d = 7 \<or> d = 8 \<or> d = (9::nat)"
  using assms by arith

lemma of_char_digit: "d < 10 \<Longrightarrow> (of_char (digit_char d) :: nat) = 48 + d"
  using small_digit [of d] by (auto simp: digit_char_def)

lemma digit_char_is_digit: "d < 10 \<Longrightarrow> is_digit (digit_char d)"
  by (simp add: is_digit_def of_char_digit)

lemma digit_char_not_punct:
  "d < 10 \<Longrightarrow> digit_char d \<notin> {CHR ''-'', CHR ''.'', CHR '','', CHR '';''}"
  using small_digit [of d] by (auto simp: digit_char_def)

lemma digits_of_is_digit: "list_all is_digit (digits_of n)"
proof (induction n rule: digits_of.induct)
  case (1 n)
  show ?case
  proof (cases "n < 10")
    case True
    then show ?thesis by (subst digits_of.simps) (simp add: digit_char_is_digit)
  next
    case False
    with 1 show ?thesis by (subst digits_of.simps) (simp add: digit_char_is_digit)
  qed
qed

lemma digits_of_nonempty: "digits_of n \<noteq> []"
  by (subst digits_of.simps) simp

lemma is_digit_not_punct:
  "is_digit c \<Longrightarrow> c \<notin> {CHR ''-'', CHR ''.'', CHR '','', CHR '';''}"
  by (auto simp: is_digit_def)

lemma digits_of_no_punct:
  "c \<in> {CHR ''-'', CHR ''.'', CHR '','', CHR '';''} \<Longrightarrow> c \<notin> set (digits_of n)"
  using digits_of_is_digit [of n] is_digit_not_punct by (auto simp: list_all_iff)

lemma fraction_digits_is_digit: "list_all is_digit (fraction_digits k)"
  by (simp add: fraction_digits_def digit_char_is_digit)

lemma fraction_digits_no_punct:
  "c \<in> {CHR ''-'', CHR ''.'', CHR '','', CHR '';''} \<Longrightarrow> c \<notin> set (fraction_digits k)"
  using fraction_digits_is_digit [of k] is_digit_not_punct by (auto simp: list_all_iff)

definition digits_value :: "string \<Rightarrow> nat" where
  "digits_value s = foldl (\<lambda>acc c. 10 * acc + (of_char c - 48)) 0 s"

lemma digits_value_snoc: "digits_value (s @ [c]) = 10 * digits_value s + (of_char c - 48)"
  by (simp add: digits_value_def)

lemma digits_value_digits_of: "digits_value (digits_of n) = n"
proof (induction n rule: digits_of.induct)
  case (1 n)
  show ?case
  proof (cases "n < 10")
    case True
    then show ?thesis
      by (subst digits_of.simps) (simp add: digits_value_def of_char_digit)
  next
    case False
    with 1 have "digits_value (digits_of (n div 10)) = n div 10" by simp
    with False show ?thesis
      by (subst digits_of.simps) (simp add: digits_value_snoc of_char_digit)
  qed
qed

lemma parse_nat_digits_of: "parse_nat (digits_of n) = Some n"
  using digits_value_digits_of [of n]
  by (simp add: parse_nat_def digits_of_nonempty digits_of_is_digit digits_value_def)

lemma four_digits:
  assumes "k < (10000::nat)"
  shows "10 * (10 * (10 * (k div 1000 mod 10) + k div 100 mod 10) + k div 10 mod 10) + k mod 10 = k"
proof -
  have a: "k div 10 div 10 = k div 100"
    by (simp add: div_mult2_eq [symmetric])
  have b: "k div 100 div 10 = k div 1000"
    by (simp add: div_mult2_eq [symmetric])
  have c: "k div 1000 mod 10 = k div 1000"
    using assms by (simp add: less_mult_imp_div_less)
  have e1: "10 * (k div 10) + k mod 10 = k"
    by simp
  have e2: "10 * (k div 100) + k div 10 mod 10 = k div 10"
    using mult_div_mod_eq [of 10 "k div 10"] by (simp only: a)
  have e3: "10 * (k div 1000) + k div 100 mod 10 = k div 100"
    using mult_div_mod_eq [of 10 "k div 100"] by (simp only: b)
  show ?thesis
    by (simp only: c e3 e2 e1)
qed

lemma parse_nat_fraction_digits:
  assumes "k < 10000"
  shows "parse_nat (fraction_digits k) = Some k"
proof -
  define d3 d2 d1 d0 where "d3 = k div 1000 mod 10" and "d2 = k div 100 mod 10"
    and "d1 = k div 10 mod 10" and "d0 = k mod 10"
  have lt: "d3 < 10" "d2 < 10" "d1 < 10" "d0 < 10"
    by (simp_all add: d3_def d2_def d1_def d0_def)
  have digits: "fraction_digits k = [digit_char d3, digit_char d2, digit_char d1, digit_char d0]"
    by (simp only: fraction_digits_def d3_def d2_def d1_def d0_def)
  have total: "10 * (10 * (10 * d3 + d2) + d1) + d0 = k"
    using four_digits [OF assms] by (simp only: d3_def d2_def d1_def d0_def)
  have "foldl (\<lambda>acc c. 10 * acc + (of_char c - 48)) 0
          [digit_char d3, digit_char d2, digit_char d1, digit_char d0] =
        10 * (10 * (10 * d3 + d2) + d1) + d0"
    using lt by (simp add: of_char_digit)
  with total lt show ?thesis
    by (simp add: parse_nat_def digits digit_char_is_digit)
qed

lemma whole_and_fraction: "real (n div 10000) + real (n mod 10000) / 10000 = real n / 10000"
proof -
  have "real (10000 * (n div 10000) + n mod 10000) =
        10000 * real (n div 10000) + real (n mod 10000)"
    by (simp only: of_nat_add of_nat_mult of_nat_numeral)
  then have "real n = 10000 * real (n div 10000) + real (n mod 10000)"
    by (simp only: mult_div_mod_eq)
  then show ?thesis by (simp add: field_simps)
qed

lemma parse_magnitude_digits:
  "parse_magnitude (digits_of (n div 10000) @ CHR ''.'' # fraction_digits (n mod 10000)) =
     Some (real n / 10000)"
proof -
  have "split_on CHR ''.'' (digits_of (n div 10000) @ CHR ''.'' # fraction_digits (n mod 10000)) =
        [digits_of (n div 10000), fraction_digits (n mod 10000)]"
    by (simp add: split_on_append_sep split_on_no_sep digits_of_no_punct
        fraction_digits_no_punct)
  moreover have "length (fraction_digits (n mod 10000)) = 4"
    by (simp add: fraction_digits_def)
  ultimately show ?thesis
    using whole_and_fraction [of n]
    by (simp add: parse_magnitude_def parse_nat_digits_of parse_nat_fraction_digits)
qed

lemma parse_format_score: "parse_score (format_score score) = Some (rounded_score score)"
proof -
  define n where "n = nat (round_half_even (\<bar>score\<bar> * 10000))"
  have fmt: "format_score score =
             (if score < 0 then ''-'' else []) @
             digits_of (n div 10000) @ CHR ''.'' # fraction_digits (n mod 10000)"
    by (simp add: format_score_def n_def)
  have rnd: "rounded_score score = (if score < 0 then - (real n / 10000) else real n / 10000)"
    by (simp add: rounded_score_def n_def)
  show ?thesis
  proof (cases "score < 0")
    case True
    then show ?thesis
      by (simp add: fmt rnd parse_score_def parse_magnitude_digits)
  next
    case False
    obtain c rest where d: "digits_of (n div 10000) = c # rest"
      using digits_of_nonempty by (meson neq_Nil_conv)
    have "c \<noteq> CHR ''-''"
      using digits_of_no_punct [of "CHR ''-''" "n div 10000"] by (auto simp: d)
    moreover have "parse_magnitude (c # rest @ CHR ''.'' # fraction_digits (n mod 10000)) =
                   Some (real n / 10000)"
      using parse_magnitude_digits [of n] by (simp add: d)
    ultimately show ?thesis
      using False by (simp add: fmt rnd parse_score_def d)
  qed
qed

lemma format_score_no_sep:
  "CHR '','' \<notin> set (format_score score) \<and> CHR '';'' \<notin> set (format_score score)"
  by (simp add: format_score_def digits_of_no_punct fraction_digits_no_punct)

lemma parse_encode_pair:
  assumes "CHR '','' \<notin> set (fst p)"
  shows "parse_pair (encode_pair p) = Some (fst p, rounded_score (snd p))"
  using assms format_score_no_sep [of "snd p"]
  by (simp add: parse_pair_def encode_pair_def split_on_append_sep split_on_no_sep
      parse_format_score)

lemma encode_pair_no_semicolon:
  "CHR '';'' \<notin> set (fst p) \<Longrightarrow> CHR '';'' \<notin> set (encode_pair p)"
  using format_score_no_sep [of "snd p"] by (simp add: encode_pair_def)

lemma those_map_Some:
  "(\<And>x. x \<in> set xs \<Longrightarrow> f x = Some (g x)) \<Longrightarrow> those (map f xs) = Some (map g xs)"
  by (induction xs) auto

lemma join_nonempty: "xs \<noteq> [] \<Longrightarrow> \<forall>x\<in>set xs. x \<noteq> [] \<Longrightarrow> join sep xs \<noteq> []"
  by (induction sep xs rule: join.induct) auto

lemma parse_joined_pairs:
  assumes "list_all (\<lambda>p. separator_free (fst p)) recs"
  shows "parse_recommendations (join '';'' (map encode_pair recs)) =
           Some (map (\<lambda>p. (fst p, rounded_score (snd p))) recs)"
proof (cases "recs = []")
  case True
  then show ?thesis by (simp add: parse_recommendations_def)
next
  case False
  have nonempty: "join '';'' (map encode_pair recs) \<noteq> []"
    using False by (intro join_nonempty) (auto simp: encode_pair_def)
  have "\<forall>x\<in>set (map encode_pair recs). CHR '';'' \<notin> set x"
    using assms encode_pair_no_semicolon by (auto simp: list_all_iff separator_free_def)
  then have "split_on CHR '';'' (join '';'' (map encode_pair recs)) = map encode_pair recs"
    using False by (intro split_join) auto
  moreover have "those (map parse_pair (map encode_pair recs)) =
                 Some (map (\<lambda>p. (fst p, rounded_score (snd p))) recs)"
    unfolding map_map comp_def
    using assms by (intro those_map_Some parse_encode_pair) (auto simp: list_all_iff separator_free_def)
  ultimately show ?thesis
    using nonempty by (simp add: parse_recommendations_def)
qed

lemma load_saved:
  assumes "list_all (\<lambda>item. list_all (\<lambda>p. separator_free (fst p)) (snd item)) items"
  shows "save_recommendations (Some items) \<noteq> None \<and>
         load_recommendations (the (save_recommendations (Some items))) =
           Some (map (\<lambda>item. (fst item, map (\<lambda>p. (fst p, rounded_score (snd p))) (snd item))) items)"
proof -
  have "those (map (\<lambda>item. map_option (Pair (fst item))
                      (parse_recommendations (join '';'' (map encode_pair (snd item))))) items) =
        Some (map (\<lambda>item. (fst item, map (\<lambda>p. (fst p, rounded_score (snd p))) (snd item))) items)"
    using assms by (intro those_map_Some) (simp add: list_all_iff parse_joined_pairs)
  then show ?thesis
    by (simp add: save_recommendations_def load_recommendations_def comp_def case_prod_unfold)
qed

lemma upt_3: "[0..<3] = [0, 1, 2]"
  by (simp add: upt_rec)

lemma third_matrix:
  "similarity_matrix third_features =
     [[1, - (1 / 3), - (1 / 3), - (1 / 3)], [- (1 / 3), 1, - (1 / 3), - (1 / 3)],
      [- (1 / 3), - (1 / 3), 1, - (1 / 3)], [- (1 / 3), - (1 / 3), - (1 / 3), 1]]"
  by (simp add: similarity_matrix_def third_features_def cosine_similarity_def normalize_row_def
      dot_def handle_zeros_in_scale_def fit_transform_def n_features_def column_def mean_def
      scale_of_def upt_3)

lemma third_index: "customer_indices (map fst third_features) ''C0001'' = Some 0"
  by (simp add: customer_indices_def third_features_def enumerate_eq_zip upt_4 index_step_pair)

lemma third_similar: "similar_indices [1, - (1 / 3), - (1 / 3), - (1 / 3)] = [3, 2, 1]"
  by (simp add: similar_indices_def argsort_def upt_4)

lemma third_list:
  "recommendation_list third_features 0 =
     [(''C0004'', - (1 / 3)), (''C0003'', - (1 / 3)), (''C0002'', - (1 / 3))]"
  by (simp add: recommendation_list_def third_matrix third_similar) (simp add: third_features_def)

lemma third_nonempty: "third_features \<noteq> [] \<and> n_features (map snd third_features) \<noteq> 0"
  by (simp add: third_features_def n_features_def)

lemma third_eval:
  "calculate_similarity third_features [''C0001''] =
     Some [(''C0001'', [(''C0004'', - (1 / 3)), (''C0003'', - (1 / 3)), (''C0002'', - (1 / 3))])]"
  by (simp add: calculate_similarity_def third_nonempty recommend_step_def third_index third_list)

lemma format_third: "format_score (- (1 / 3)) = ''-0.3333''"
  by (simp add: format_score_def round_half_even_def digits_of.simps fraction_digits_def
      digit_char_def)

lemma third_saved:
  "save_recommendations
     (Some [(''C0001'', [(''C0004'', - (1 / 3)), (''C0003'', - (1 / 3)), (''C0002'', - (1 / 3))])]) =
   Some [(''C0001'', ''C0004,-0.3333;C0003,-0.3333;C0002,-0.3333'')]"
  by (simp add: save_recommendations_def encode_pair_def format_third)

lemma third_loaded:
  "load_recommendations [(''C0001'', ''C0004,-0.3333;C0003,-0.3333;C0002,-0.3333'')] =
   Some [(''C0001'',
          [(''C0004'', - (3333 / 10000)), (''C0003'', - (3333 / 10000)),
           (''C0002'', - (3333 / 10000))])]"
  by (simp add: load_recommendations_def parse_recommendations_def parse_pair_def
      parse_score_def parse_magnitude_def parse_nat_def is_digit_def)

lemma neighbour_ids:
  assumes "calculate_similarity features target_customers = Some recommendations"
    and "item \<in> set recommendations"
    and "p \<in> set (snd item)"
  shows "fst p \<in> set (map fst features)"
proof -
  from assms(1) have r: "recommendations = fold (recommend_step features) target_customers []"
    by (simp add: calculate_similarity_def split: if_splits)
  have "distinct (map fst recommendations)"
    unfolding r by (rule distinct_keys_recommend_fold) simp
  with assms(2) have "map_of recommendations (fst item) = Some (snd item)"
    by simp
  then obtain i where i: "customer_indices (map fst features) (fst item) = Some i"
    and recs: "snd item = recommendation_list features i"
    by (auto simp: r map_of_recommend_fold split: if_splits)
  have "i < length features"
    using customer_indices_points_at [OF i] by simp
  then have len: "length (similarity_matrix features ! i) = length features"
    by (rule similarity_row_length)
  from assms(3) recs obtain idx where idx: "idx \<in> set (similar_indices (similarity_matrix features ! i))"
    and p: "fst p = map fst features ! idx"
    by (auto simp: recommendation_list_def Let_def)
  from idx len have "idx < length features"
    using similar_indices_range [of "similarity_matrix features ! i"] by auto
  with p show ?thesis
    by (metis length_map nth_mem)
qed

subsection \<open>The claim about the exported file\<close>

text \<open>
  Claim C5 says that writing the recommendations and reading them back gives the same
  mapping. The scores are written with four decimal places, so a score with more
  decimals does not come back: for \<open>third_features\<close> the score \<open>- 1 / 3\<close> is written
  as \<^verbatim>\<open>-0.3333\<close> and read back as \<open>- 3333 / 10000\<close>.
\<close>

theorem four_decimals_counterexample:
  "calculate_similarity third_features [''C0001''] =
     Some [(''C0001'', [(''C0004'', - (1 / 3)), (''C0003'', - (1 / 3)), (''C0002'', - (1 / 3))])] \<and>
   save_recommendations
     (Some [(''C0001'', [(''C0004'', - (1 / 3)), (''C0003'', - (1 / 3)), (''C0002'', - (1 / 3))])]) =
     Some [(''C0001'', ''C0004,-0.3333;C0003,-0.3333;C0002,-0.3333'')] \<and>
   load_recommendations [(''C0001'', ''C0004,-0.3333;C0003,-0.3333;C0002,-0.3333'')] =
     Some [(''C0001'',
            [(''C0004'', - (3333 / 10000)), (''C0003'', - (3333 / 10000)),
             (''C0002'', - (3333 / 10000))])] \<and>
   load_recommendations [(''C0001'', ''C0004,-0.3333;C0003,-0.3333;C0002,-0.3333'')] \<noteq>
     Some [(''C0001'', [(''C0004'', - (1 / 3)), (''C0003'', - (1 / 3)), (''C0002'', - (1 / 3))])]"
  by (simp add: third_eval third_saved third_loaded)

text \<open>
  Claim C5 as amended: when no customer identifier of the feature table contains a
  comma or a semicolon, writing the recommendations and reading them back gives the
  same customers, the same neighbours in the same order, and every score rounded to
  four decimal places.
\<close>

theorem round_trip_up_to_rounding:
  assumes "calculate_similarity features target_customers = Some recommendations"
    and "list_all separator_free (map fst features)"
  shows "\<exists>file_rows.
           save_recommendations (Some recommendations) = Some file_rows \<and>
           load_recommendations file_rows =
             Some (map (\<lambda>item. (fst item, map (\<lambda>p. (fst p, rounded_score (snd p))) (snd item)))
                     recommendations)"
proof -
  have "separator_free (fst p)" if "item \<in> set recommendations" and "p \<in> set (snd item)"
    for item p
  proof -
    have "fst p \<in> set (map fst features)"
      using assms(1) that by (rule neighbour_ids)
    with assms(2) show ?thesis
      by (simp only: list_all_iff)
  qed
  then have "list_all (\<lambda>item. list_all (\<lambda>p. separator_free (fst p)) (snd item)) recommendations"
    by (simp add: list_all_iff)
  from load_saved [OF this] show ?thesis
    by auto
qed

theorem round_trip_up_to_rounding_witness:
  "calculate_similarity third_features [''C0001''] =
     Some [(''C0001'', [(''C0004'', - (1 / 3)), (''C0003'', - (1 / 3)), (''C0002'', - (1 / 3))])] \<and>
   list_all separator_free (map fst third_features) \<and>
   (\<exists>file_rows.
      save_recommendations
        (Some [(''C0001'', [(''C0004'', - (1 / 3)), (''C0003'', - (1 / 3)), (''C0002'', - (1 / 3))])])
        = Some file_rows \<and>
      load_recommendations file_rows =
        Some [(''C0001'',
               [(''C0004'', rounded_score (- (1 / 3))), (''C0003'', rounded_score (- (1 / 3))),
                (''C0002'', rounded_score (- (1 / 3)))])])"
proof -
  have s: "list_all separator_free (map fst third_features)"
    by (simp add: third_features_def separator_free_def)
  show ?thesis
    using round_trip_up_to_rounding [OF third_eval s] third_eval s by simp
qed

end
